theory Spec2Isabelle
  imports Complex_Main "HOL-Library.AList"
begin

section \<open>Values, results and exceptions\<close>

text \<open>
  The engine of \<^verbatim>\<open>dynamiq/nodes/node.py\<close> passes untyped Python values around. The
  values the code inspects are modelled by \<open>pyval\<close>: a dict is an association list in
  insertion order, and a \<open>RunnableResult\<close> stored inside an output (the value a gate
  reads its \<open>status\<close> from) is \<open>PResult status input output\<close>.
\<close>

datatype RunnableStatus = SUCCESS | FAILURE | SKIP

datatype pyval =
    PNone
  | PBool bool
  | PInt int
  | PStr string
  | PList "pyval list"
  | PDict "(string \<times> pyval) list"
  | PResult RunnableStatus pyval pyval

record RunnableResult =
  status :: RunnableStatus
  input :: pyval
  "output" :: pyval

text \<open>Python truthiness, as \<open>if x:\<close> and \<open>x and y\<close> read it.\<close>

fun truthy :: "pyval \<Rightarrow> bool" where
  "truthy PNone = False"
| "truthy (PBool b) = b"
| "truthy (PInt i) = (i \<noteq> 0)"
| "truthy (PStr s) = (s \<noteq> [])"
| "truthy (PList xs) = (xs \<noteq> [])"
| "truthy (PDict kvs) = (kvs \<noteq> [])"
| "truthy (PResult s i out) = True"

text \<open>\<open>a | b\<close> on dicts: the keys of \<open>a\<close> keep their place, \<open>b\<close> overrides and appends.\<close>

definition dict_or :: "(string \<times> pyval) list \<Rightarrow> (string \<times> pyval) list \<Rightarrow> (string \<times> pyval) list" where
  "dict_or a b = foldl (\<lambda>d kv. AList.update (fst kv) (snd kv) d) a b"

text \<open>
  A dependency edge. The source holds the predecessor node itself; validation reads only
  its \<open>id\<close>, so the edge carries the id.
\<close>

record NodeDependency =
  node :: string
  option :: "string option"

text \<open>
  The exception classes the two files raise, catch or test with \<open>isinstance\<close>, and two
  families for everything else: \<open>OtherRecoverable n\<close> is a further subclass of
  \<open>RecoverableAgentException\<close> named \<open>n\<close> (a tool's own recoverable error),
  \<open>OtherException n\<close> any other subclass of \<open>Exception\<close>. Exceptions outside
  \<open>Exception\<close> (\<open>KeyboardInterrupt\<close>, \<open>SystemExit\<close>) are not modelled. The declaration
  of \<open>AgentMaxLoopsReached\<close> is not among the sources: the class carries, as its
  argument, whether it derives from \<open>RecoverableAgentException\<close>, and the loop takes
  that from its collaborators.
\<close>

datatype exn_class =
    TypeError
  | KeyError
  | IndexError
  | AttributeError
  | ValueError
  | OverflowError
  | JSONDecodeError
  | TimeoutError
  | NodeException
  | NodeFailedException
  | NodeSkippedException
  | NodeConditionFailedException
  | RecoverableAgentException
  | ActionParsingException
  | AgentMaxLoopsReached bool
  | OtherRecoverable string
  | OtherException string

datatype exn = Exn (exn_cls: exn_class) (exn_msg: string) (failed_depend: "NodeDependency option")

text \<open>
  Modelled from the spec: the class hierarchy of \<^verbatim>\<open>dynamiq/nodes/exceptions.py\<close> and
  \<^verbatim>\<open>dynamiq/nodes/agents/exceptions.py\<close>, which are not among the sources. A failed,
  skipped or condition-failed dependency is a \<open>NodeException\<close> (the skip path catches
  all three); a parsing error is a recoverable agent error. The base of
  \<open>AgentMaxLoopsReached\<close> is the parameter the class carries; nothing here decides it.
  \<open>base_class c\<close> is the base of \<open>c\<close> below \<open>Exception\<close>; that of \<open>JSONDecodeError\<close> is the
  standard library's.
\<close>

fun base_class :: "exn_class \<Rightarrow> exn_class option" where
  "base_class NodeFailedException = Some NodeException"
| "base_class NodeSkippedException = Some NodeException"
| "base_class NodeConditionFailedException = Some NodeException"
| "base_class ActionParsingException = Some RecoverableAgentException"
| "base_class (OtherRecoverable n) = Some RecoverableAgentException"
| "base_class JSONDecodeError = Some ValueError"
| "base_class (AgentMaxLoopsReached recoverable) =
     (if recoverable then Some RecoverableAgentException else None)"
| "base_class c = None"

definition issubclass :: "exn_class \<Rightarrow> exn_class \<Rightarrow> bool" where
  "issubclass c d = (c = d \<or> base_class c = Some d)"

definition isinstance :: "exn \<Rightarrow> exn_class \<Rightarrow> bool" where
  "isinstance e c = issubclass (exn_cls e) c"

text \<open>\<open>type(e).__name__\<close>.\<close>

fun class_name :: "exn_class \<Rightarrow> string" where
  "class_name TypeError = ''TypeError''"
| "class_name KeyError = ''KeyError''"
| "class_name IndexError = ''IndexError''"
| "class_name AttributeError = ''AttributeError''"
| "class_name ValueError = ''ValueError''"
| "class_name OverflowError = ''OverflowError''"
| "class_name JSONDecodeError = ''JSONDecodeError''"
| "class_name TimeoutError = ''TimeoutError''"
| "class_name NodeException = ''NodeException''"
| "class_name NodeFailedException = ''NodeFailedException''"
| "class_name NodeSkippedException = ''NodeSkippedException''"
| "class_name NodeConditionFailedException = ''NodeConditionFailedException''"
| "class_name RecoverableAgentException = ''RecoverableAgentException''"
| "class_name ActionParsingException = ''ActionParsingException''"
| "class_name (AgentMaxLoopsReached recoverable) = ''AgentMaxLoopsReached''"
| "class_name (OtherRecoverable n) = n"
| "class_name (OtherException n) = n"

section \<open>Callbacks and observable effects\<close>

text \<open>
  One IntermediateStep of the reasoning loop (the \<open>model_dump()\<close> of
  \<open>AgentIntermediateStep\<close>), declared here because the stream callback carries it.
\<close>

record ModelObservation =
  initial :: "string option"
  tool_using :: "pyval option"
  tool_input :: "pyval option"
  tool_output :: "string option"
  updated :: "string option"

record IntermediateStep =
  prompt :: string
  model_observation :: ModelObservation
  final_answer :: "pyval option"

text \<open>
  The hooks of \<open>BaseCallbackHandler\<close> the two files call, with the payload each receives.
  A handler is foreign code: called with an event it returns (\<open>None\<close>) or raises
  (\<open>Some e\<close>).
\<close>

datatype event =
    on_node_start pyval
  | on_node_end pyval bool
  | on_node_error exn
  | on_node_skip NodeDependency pyval
  | on_node_execute_start pyval
  | on_node_execute_end pyval
  | on_node_execute_error exn
  | on_node_execute_stream IntermediateStep

type_synonym BaseCallbackHandler = "event \<Rightarrow> exn option"

text \<open>
  What a run does besides returning: hook calls, calls of \<open>execute\<close> (by attempt),
  sleeps, cache accesses, model calls (loop index and prompt) and tool calls.
\<close>

datatype effect =
    Emitted event
  | Executed nat
  | Slept real
  | CacheRead
  | CacheStored
  | ModelCalled nat string
  | ToolCalled pyval pyval

text \<open>\<open>for callback in callbacks: callback.on_...(...)\<close>: the first handler that raises ends the loop.\<close>

fun emit :: "BaseCallbackHandler list \<Rightarrow> event \<Rightarrow> effect list \<Rightarrow> exn option \<times> effect list" where
  "emit [] ev tr = (None, tr)"
| "emit (callback # callbacks) ev tr =
     (case callback ev of
        Some e \<Rightarrow> (Some e, tr @ [Emitted ev])
      | None \<Rightarrow> emit callbacks ev (tr @ [Emitted ev]))"

definition run_on_node_start :: "BaseCallbackHandler list \<Rightarrow> pyval \<Rightarrow> effect list \<Rightarrow> exn option \<times> effect list" where
  "run_on_node_start callbacks input_data tr = emit callbacks (on_node_start input_data) tr"

definition run_on_node_end :: "BaseCallbackHandler list \<Rightarrow> pyval \<Rightarrow> bool \<Rightarrow> effect list \<Rightarrow> exn option \<times> effect list" where
  "run_on_node_end callbacks output_data is_output_from_cache tr =
     emit callbacks (on_node_end output_data is_output_from_cache) tr"

definition run_on_node_error :: "BaseCallbackHandler list \<Rightarrow> exn \<Rightarrow> effect list \<Rightarrow> exn option \<times> effect list" where
  "run_on_node_error callbacks error tr = emit callbacks (on_node_error error) tr"

definition run_on_node_skip :: "BaseCallbackHandler list \<Rightarrow> NodeDependency \<Rightarrow> pyval \<Rightarrow> effect list \<Rightarrow> exn option \<times> effect list" where
  "run_on_node_skip callbacks skip_data input_data tr = emit callbacks (on_node_skip skip_data input_data) tr"

definition run_on_node_execute_start :: "BaseCallbackHandler list \<Rightarrow> pyval \<Rightarrow> effect list \<Rightarrow> exn option \<times> effect list" where
  "run_on_node_execute_start callbacks input_data tr = emit callbacks (on_node_execute_start input_data) tr"

definition run_on_node_execute_end :: "BaseCallbackHandler list \<Rightarrow> pyval \<Rightarrow> effect list \<Rightarrow> exn option \<times> effect list" where
  "run_on_node_execute_end callbacks output_data tr = emit callbacks (on_node_execute_end output_data) tr"

definition run_on_node_execute_error :: "BaseCallbackHandler list \<Rightarrow> exn \<Rightarrow> effect list \<Rightarrow> exn option \<times> effect list" where
  "run_on_node_execute_error callbacks error tr = emit callbacks (on_node_execute_error error) tr"

definition run_on_node_execute_stream :: "BaseCallbackHandler list \<Rightarrow> IntermediateStep \<Rightarrow> effect list \<Rightarrow> exn option \<times> effect list" where
  "run_on_node_execute_stream callbacks chunk tr = emit callbacks (on_node_execute_stream chunk) tr"

text \<open>Every registered handler returns from the event.\<close>

definition returns_normally :: "BaseCallbackHandler list \<Rightarrow> event \<Rightarrow> bool" where
  "returns_normally callbacks ev = list_all (\<lambda>callback. callback ev = None) callbacks"

section \<open>The node and its configuration\<close>

record ErrorHandling =
  timeout_seconds :: "real option"
  retry_interval_seconds :: real
  max_retries :: int
  backoff_rate :: real

record Transformer =
  path :: "string option"
  selector :: "(string \<times> string) list option"

text \<open>
  One call of the abstract \<open>execute\<close>: how long it ran and what it did. The number of
  the attempt is its argument, so an \<open>execute\<close> may fail first and succeed later.
\<close>

record attempt =
  duration :: real
  outcome :: "exn + pyval"

record Node =
  node_id :: string
  error_handling :: ErrorHandling
  input_transformer :: Transformer
  output_transformer :: Transformer
  caching_enabled :: bool
  depends :: "NodeDependency list"
  execute :: "nat \<Rightarrow> pyval \<Rightarrow> attempt"

text \<open>
  Modelled from the spec: the cache backend behind \<open>cache_wf_entity\<close>
  (\<^verbatim>\<open>dynamiq/cache/utils.py\<close> is not among the sources): a lookup and a store keyed by
  node identity and effective input, either of which may raise.
\<close>

record CacheBackend =
  cache_get :: "string \<Rightarrow> pyval \<Rightarrow> exn + pyval option"
  cache_set :: "string \<Rightarrow> pyval \<Rightarrow> pyval \<Rightarrow> exn option"

record RunnableConfig =
  callbacks :: "BaseCallbackHandler list"
  cache :: "CacheBackend option"

definition ensure_config :: "RunnableConfig option \<Rightarrow> RunnableConfig" where
  "ensure_config config =
     (case config of None \<Rightarrow> \<lparr>callbacks = [], cache = None\<rparr> | Some c \<Rightarrow> c)"

text \<open>
  The helpers \<open>node.py\<close> imports from modules that are not among the sources, taken as
  parameters: the two JSONPath stages of a transformer (each may raise), the formatter of
  an error (called with or without the \<open>recoverable\<close> keyword), and the two dict views of
  a dependency's result.
\<close>

record helpers =
  jsonpath_filter :: "pyval \<Rightarrow> string option \<Rightarrow> string \<Rightarrow> exn + pyval"
  jsonpath_mapper :: "pyval \<Rightarrow> (string \<times> string) list option \<Rightarrow> string \<Rightarrow> exn + pyval"
  format_value :: "exn \<Rightarrow> bool option \<Rightarrow> pyval"
  to_tracing_depend_dict :: "RunnableResult \<Rightarrow> pyval"
  to_depend_dict :: "RunnableResult \<Rightarrow> pyval"

section \<open>Dependency validation\<close>

text \<open>
  \<open>depends_result\<close> is a dict from node id to \<open>RunnableResult\<close>; \<open>.get\<close> is \<open>map_of\<close>.
  A \<open>RunnableResult\<close> is always truthy, so \<open>not depends_result.get(id)\<close> holds exactly
  when the key is missing.
\<close>

type_synonym depends_result = "(string \<times> RunnableResult) list"

definition validate_dependency_status :: "NodeDependency \<Rightarrow> depends_result \<Rightarrow> exn + unit" where
  "validate_dependency_status depend depends_result =
     (case map_of depends_result (node depend) of
        None \<Rightarrow>
          Inl (Exn NodeException (''Dependency '' @ node depend @ '': result missed'') (Some depend))
      | Some dep_result \<Rightarrow>
          if status dep_result = FAILURE then
            Inl (Exn NodeFailedException (''Dependency '' @ node depend @ '': failed'') (Some depend))
          else if status dep_result = SKIP then
            Inl (Exn NodeSkippedException (''Dependency '' @ node depend @ '': skipped'') (Some depend))
          else Inr ())"

text \<open>
  \<open>dep_output_data.output.get(depend.option)\<close>, then \<open>.status\<close> of what was found when it
  is truthy. Only a result has a \<open>status\<close>; any other truthy value raises
  \<open>AttributeError\<close>, which is no \<open>NodeException\<close>.
\<close>

definition validate_dependency_condition :: "NodeDependency \<Rightarrow> depends_result \<Rightarrow> exn + unit" where
  "validate_dependency_condition depend depends_result =
     (case map_of depends_result (node depend) of
        None \<Rightarrow> Inr ()
      | Some dep_output_data \<Rightarrow>
          (case output dep_output_data of
             PDict kvs \<Rightarrow>
               (case (case option depend of
                        None \<Rightarrow> None
                      | Some opt \<Rightarrow> map_of kvs opt) of
                  None \<Rightarrow> Inr ()
                | Some dep_condition_data \<Rightarrow>
                    if \<not> truthy dep_condition_data then Inr ()
                    else
                      (case dep_condition_data of
                         PResult st i out \<Rightarrow>
                           if st = FAILURE then
                             Inl (Exn NodeConditionFailedException
                                    (''Dependency '' @ node depend @ '' condition ''
                                       @ (case option depend of None \<Rightarrow> ''None'' | Some opt \<Rightarrow> opt)
                                       @ '': result is false'')
                                    (Some depend))
                           else Inr ()
                       | _ \<Rightarrow>
                           Inl (Exn AttributeError ''object has no attribute status'' None)))
           | _ \<Rightarrow> Inr ()))"

text \<open>\<open>if dep.option:\<close> holds for a non-empty string only.\<close>

fun validate_depends_loop :: "NodeDependency list \<Rightarrow> depends_result \<Rightarrow> exn + unit" where
  "validate_depends_loop [] depends_result = Inr ()"
| "validate_depends_loop (dep # deps) depends_result =
     (case validate_dependency_status dep depends_result of
        Inl e \<Rightarrow> Inl e
      | Inr u \<Rightarrow>
          (case (if option dep \<noteq> None \<and> option dep \<noteq> Some []
                 then validate_dependency_condition dep depends_result
                 else Inr ()) of
             Inl e \<Rightarrow> Inl e
           | Inr u \<Rightarrow> validate_depends_loop deps depends_result))"

definition validate_depends :: "Node \<Rightarrow> depends_result \<Rightarrow> exn + unit" where
  "validate_depends self depends_result = validate_depends_loop (depends self) depends_result"

section \<open>Transformation, timeout and retry\<close>

definition transform :: "helpers \<Rightarrow> pyval \<Rightarrow> Transformer \<Rightarrow> string \<Rightarrow> exn + pyval" where
  "transform H data transformer nid =
     (case jsonpath_filter H data (path transformer) nid of
        Inl e \<Rightarrow> Inl e
      | Inr out \<Rightarrow> jsonpath_mapper H out (selector transformer) nid)"

definition transform_input :: "helpers \<Rightarrow> Node \<Rightarrow> pyval \<Rightarrow> exn + pyval" where
  "transform_input H self input_data = transform H input_data (input_transformer self) (node_id self)"

definition transform_output :: "helpers \<Rightarrow> Node \<Rightarrow> pyval \<Rightarrow> exn + pyval" where
  "transform_output H self output_data = transform H output_data (output_transformer self) (node_id self)"

text \<open>
  \<open>future.result(timeout=timeout)\<close>: the attempt's own outcome when it finishes in time,
  a \<open>TimeoutError\<close> otherwise. Durations are mathematical reals.
\<close>

definition execute_with_timeout :: "Node \<Rightarrow> real option \<Rightarrow> nat \<Rightarrow> pyval \<Rightarrow> exn + pyval" where
  "execute_with_timeout self timeout n input_data =
     (let a = execute self n input_data in
      case timeout of
        None \<Rightarrow> outcome a
      | Some t \<Rightarrow> if t < duration a then Inl (Exn TimeoutError [] None) else outcome a)"

text \<open>
  The sleep length is computed in floats. The configured interval and rate are finite
  floats, modelled by the reals they stand for; rounding is left out, the errors of the
  float computation are kept, at their thresholds. \<open>rate ** attempt\<close> raises
  \<open>OverflowError\<close> when the power is beyond the largest double. \<open>time.sleep\<close> first
  converts the length to nanoseconds in a signed 64-bit integer and raises
  \<open>OverflowError\<close> when it does not fit (a product that overflows to infinity is such
  a length), then raises \<open>ValueError\<close> on a negative length.
\<close>

definition max_float :: real where
  "max_float = 2 ^ 1024 - 2 ^ 971"

definition float_pow_overflows :: "real \<Rightarrow> nat \<Rightarrow> bool" where
  "float_pow_overflows x n = (max_float < \<bar>x ^ n\<bar>)"

definition sleep_overflows :: "real \<Rightarrow> bool" where
  "sleep_overflows secs = (2 ^ 63 < \<bar>secs * 10 ^ 9\<bar>)"

text \<open>
  The body of \<open>for attempt in range(n_attempt)\<close>, over the attempts still to make;
  \<open>error\<close> is the variable of that name. The start hook is called outside the
  \<open>try\<close>, the end hook inside it, the error hook inside the handler. The two handlers
  (\<open>TimeoutError\<close>, \<open>Exception\<close>) differ in the log line only. The sleep length is
  computed and slept after the handlers, outside the \<open>try\<close>: an error of the power or
  of \<open>time.sleep\<close> leaves \<open>execute_with_retry\<close> at once, with the attempts made so far.
  After the loop, \<open>raise error\<close> with \<open>error\<close> still \<open>None\<close> is a \<open>TypeError\<close>.
\<close>

fun retry_loop :: "Node \<Rightarrow> RunnableConfig \<Rightarrow> pyval \<Rightarrow> nat list \<Rightarrow> exn option \<Rightarrow> effect list
    \<Rightarrow> (exn + pyval) \<times> effect list" where
  "retry_loop self config input_data [] error tr =
     (case error of
        None \<Rightarrow> (Inl (Exn TypeError ''exceptions must derive from BaseException'' None), tr)
      | Some e \<Rightarrow> (Inl e, tr))"
| "retry_loop self config input_data (attempt # rest) error tr =
     (case run_on_node_execute_start (callbacks config) input_data tr of
        (Some e, tr1) \<Rightarrow> (Inl e, tr1)
      | (None, tr1) \<Rightarrow>
          (case (case execute_with_timeout self (timeout_seconds (error_handling self)) attempt input_data of
                   Inl e \<Rightarrow> (Inl e, tr1 @ [Executed attempt])
                 | Inr out \<Rightarrow>
                     (case run_on_node_execute_end (callbacks config) out (tr1 @ [Executed attempt]) of
                        (Some e, tr2) \<Rightarrow> (Inl e, tr2)
                      | (None, tr2) \<Rightarrow> (Inr out, tr2))) of
             (Inr out, tr2) \<Rightarrow> (Inr out, tr2)
           | (Inl e, tr2) \<Rightarrow>
               (case run_on_node_execute_error (callbacks config) e tr2 of
                  (Some e', tr3) \<Rightarrow> (Inl e', tr3)
                | (None, tr3) \<Rightarrow>
                    if int attempt < (max_retries (error_handling self) + 1) - 1 then
                      (if float_pow_overflows (backoff_rate (error_handling self)) attempt
                       then (Inl (Exn OverflowError ''Numerical result out of range'' None), tr3)
                       else
                         (let time_to_sleep = retry_interval_seconds (error_handling self)
                                                * backoff_rate (error_handling self) ^ attempt
                          in if sleep_overflows time_to_sleep
                             then (Inl (Exn OverflowError ''timestamp too large to convert to C _PyTime_t'' None), tr3)
                             else if time_to_sleep < 0
                             then (Inl (Exn ValueError ''sleep length must be non-negative'' None), tr3)
                             else retry_loop self config input_data rest (Some e)
                                    (tr3 @ [Slept time_to_sleep])))
                    else retry_loop self config input_data rest (Some e) tr3)))"

definition execute_with_retry :: "Node \<Rightarrow> pyval \<Rightarrow> RunnableConfig option \<Rightarrow> effect list
    \<Rightarrow> (exn + pyval) \<times> effect list" where
  "execute_with_retry self input_data config tr =
     retry_loop self (ensure_config config) input_data
       [0 ..< nat (max_retries (error_handling self) + 1)] None tr"

section \<open>The public entry point\<close>

text \<open>
  Modelled from the spec: \<open>cache_wf_entity\<close> (\<^verbatim>\<open>dynamiq/cache/utils.py\<close> is not among
  the sources). The gate is open only when the node enables caching and the run has a
  cache; a hit returns the stored output marked as cache-sourced and calls nothing; a
  miss calls the wrapped function and stores its output once.
\<close>

definition cache_wf_entity :: "string \<Rightarrow> bool \<Rightarrow> CacheBackend option
    \<Rightarrow> (pyval \<Rightarrow> effect list \<Rightarrow> (exn + pyval) \<times> effect list)
    \<Rightarrow> pyval \<Rightarrow> effect list \<Rightarrow> (exn + pyval \<times> bool) \<times> effect list" where
  "cache_wf_entity entity_id cache_enabled cache_config func input_data tr =
     (case (if cache_enabled then cache_config else None) of
        None \<Rightarrow>
          (case func input_data tr of
             (Inl e, tr1) \<Rightarrow> (Inl e, tr1)
           | (Inr out, tr1) \<Rightarrow> (Inr (out, False), tr1))
      | Some backend \<Rightarrow>
          (case cache_get backend entity_id input_data of
             Inl e \<Rightarrow> (Inl e, tr @ [CacheRead])
           | Inr (Some out) \<Rightarrow> (Inr (out, True), tr @ [CacheRead])
           | Inr None \<Rightarrow>
               (case func input_data (tr @ [CacheRead]) of
                  (Inl e, tr1) \<Rightarrow> (Inl e, tr1)
                | (Inr out, tr1) \<Rightarrow>
                    (case cache_set backend entity_id input_data out of
                       Some e \<Rightarrow> (Inl e, tr1 @ [CacheStored])
                     | None \<Rightarrow> (Inr (out, False), tr1 @ [CacheStored])))))"

text \<open>\<open>input_data | {...}\<close>: only a dict has \<open>|\<close> with a dict.\<close>

definition py_or :: "pyval \<Rightarrow> (string \<times> pyval) list \<Rightarrow> exn + pyval" where
  "py_or input_data d =
     (case input_data of
        PDict kvs \<Rightarrow> Inr (PDict (dict_or kvs d))
      | _ \<Rightarrow> Inl (Exn TypeError ''unsupported operand type(s) for |'' None))"

definition transformer_configured :: "Transformer \<Rightarrow> bool" where
  "transformer_configured t =
     ((path t \<noteq> None \<and> path t \<noteq> Some []) \<or> (selector t \<noteq> None \<and> selector t \<noteq> Some []))"

text \<open>
  Lines 395 to 398: with an input transformer configured, the input merged with the dict
  view of the dependency results is transformed; otherwise the merged tracing view
  computed before stays.
\<close>

definition effective_input :: "helpers \<Rightarrow> Node \<Rightarrow> pyval \<Rightarrow> pyval \<Rightarrow> depends_result \<Rightarrow> exn + pyval" where
  "effective_input H self input_data transformed_input depends_result =
     (if transformer_configured (input_transformer self)
      then (case py_or input_data (map (\<lambda>kr. (fst kr, to_depend_dict H (snd kr))) depends_result) of
              Inl e \<Rightarrow> Inl e
            | Inr merged \<Rightarrow> transform_input H self merged)
      else Inr transformed_input)"

text \<open>
  The second \<open>try\<close> block of \<open>Node.run\<close>, from the input transformation to the
  \<open>SUCCESS\<close> result; \<open>Inl e\<close> is the exception that leaves the block.
\<close>

definition run_body :: "helpers \<Rightarrow> Node \<Rightarrow> RunnableConfig \<Rightarrow> pyval \<Rightarrow> pyval \<Rightarrow> depends_result
    \<Rightarrow> effect list \<Rightarrow> (exn + RunnableResult) \<times> effect list" where
  "run_body H self config input_data transformed_input depends_result tr =
     (case effective_input H self input_data transformed_input depends_result of
        Inl e \<Rightarrow> (Inl e, tr)
      | Inr transformed_input \<Rightarrow>
          (case run_on_node_start (callbacks config) transformed_input tr of
             (Some e, tr1) \<Rightarrow> (Inl e, tr1)
           | (None, tr1) \<Rightarrow>
               (case cache_wf_entity (node_id self) (caching_enabled self) (cache config)
                       (\<lambda>inp. execute_with_retry self inp (Some config)) transformed_input tr1 of
                  (Inl e, tr2) \<Rightarrow> (Inl e, tr2)
                | (Inr (out, from_cache), tr2) \<Rightarrow>
                    (case transform_output H self out of
                       Inl e \<Rightarrow> (Inl e, tr2)
                     | Inr transformed_output \<Rightarrow>
                         (case run_on_node_end (callbacks config) transformed_output from_cache tr2 of
                            (Some e, tr3) \<Rightarrow> (Inl e, tr3)
                          | (None, tr3) \<Rightarrow>
                              (Inr \<lparr>status = SUCCESS, input = transformed_input,
                                    output = transformed_output\<rparr>, tr3))))))"

text \<open>
  \<open>Node.run\<close>. \<open>Inl e\<close> is an exception that leaves \<open>run\<close>; \<open>Inr r\<close> is the returned
  result. The merge of the input with the tracing view stands before the first \<open>try\<close>;
  the first handler catches \<open>NodeException\<close> only; the skip hook and the error hook are
  called inside the handlers.
\<close>

definition run :: "helpers \<Rightarrow> Node \<Rightarrow> pyval \<Rightarrow> RunnableConfig option \<Rightarrow> depends_result option
    \<Rightarrow> (exn + RunnableResult) \<times> effect list" where
  "run H self input_data config depends_result =
     (let config = ensure_config config;
          depends_result = (case depends_result of None \<Rightarrow> [] | Some d \<Rightarrow> d)
      in
      case py_or input_data (map (\<lambda>kr. (fst kr, to_tracing_depend_dict H (snd kr))) depends_result) of
        Inl e \<Rightarrow> (Inl e, [])
      | Inr transformed_input \<Rightarrow>
          (case validate_depends self depends_result of
             Inl e \<Rightarrow>
               if isinstance e NodeException then
                 (case failed_depend e of
                    None \<Rightarrow> (Inl (Exn AttributeError ''object has no attribute to_dict'' None), [])
                  | Some d \<Rightarrow>
                      (case run_on_node_skip (callbacks config) d transformed_input [] of
                         (Some e', tr) \<Rightarrow> (Inl e', tr)
                       | (None, tr) \<Rightarrow>
                           (Inr \<lparr>status = SKIP, input = transformed_input,
                                 output = format_value H e None\<rparr>, tr)))
               else (Inl e, [])
           | Inr u \<Rightarrow>
               (case run_body H self config input_data transformed_input depends_result [] of
                  (Inr r, tr) \<Rightarrow> (Inr r, tr)
                | (Inl e, tr) \<Rightarrow>
                    (case run_on_node_error (callbacks config) e tr of
                       (Some e', tr') \<Rightarrow> (Inl e', tr')
                     | (None, tr') \<Rightarrow>
                         (Inr \<lparr>status = FAILURE, input = input_data,
                               output = format_value H e (Some (isinstance e RecoverableAgentException))\<rparr>,
                          tr')))))"

text \<open>
  What one failing attempt leaves in the trace when every handler returns: the start
  hooks, the call of \<open>execute\<close>, the error hooks.
\<close>

definition attempt_trace :: "BaseCallbackHandler list \<Rightarrow> pyval \<Rightarrow> (nat \<Rightarrow> exn) \<Rightarrow> nat \<Rightarrow> effect list" where
  "attempt_trace cbs input_data err a =
     replicate (length cbs) (Emitted (on_node_execute_start input_data)) @ [Executed a]
       @ replicate (length cbs) (Emitted (on_node_execute_error (err a)))"

section \<open>Text helpers of the reasoning loop\<close>

definition startswith :: "string \<Rightarrow> string \<Rightarrow> bool" where
  "startswith s t = (take (length t) s = t)"

text \<open>\<open>t in s\<close> for strings.\<close>

fun contains :: "string \<Rightarrow> string \<Rightarrow> bool" where
  "contains [] t = (t = [])"
| "contains (c # s) t = (startswith (c # s) t \<or> contains s t)"

text \<open>The text after, and the text before, the first occurrence of \<open>t\<close> in a string.\<close>

fun after_first :: "string \<Rightarrow> string \<Rightarrow> string option" where
  "after_first [] t = (if t = [] then Some [] else None)"
| "after_first (c # s) t =
     (if startswith (c # s) t then Some (drop (length t) (c # s)) else after_first s t)"

fun before_first :: "string \<Rightarrow> string \<Rightarrow> string option" where
  "before_first [] t = (if t = [] then Some [] else None)"
| "before_first (c # s) t =
     (if startswith (c # s) t then Some [] else map_option ((#) c) (before_first s t))"

text \<open>
  \<open>str.strip()\<close>: the ASCII characters Python counts as whitespace (tab to carriage
  return, the four separators \<open>0x1C\<close> to \<open>0x1F\<close>, space).
\<close>

definition is_space :: "char \<Rightarrow> bool" where
  "is_space c = ((9 \<le> (of_char c :: nat) \<and> (of_char c :: nat) \<le> 13)
                 \<or> (28 \<le> (of_char c :: nat) \<and> (of_char c :: nat) \<le> 32))"

definition strip :: "string \<Rightarrow> string" where
  "strip s = rev (dropWhile is_space (rev (dropWhile is_space s)))"

text \<open>\<open>sep.join(xs)\<close>.\<close>

fun join :: "string \<Rightarrow> string list \<Rightarrow> string" where
  "join sep [] = []"
| "join sep [x] = x"
| "join sep (x # y # xs) = x @ sep @ join sep (y # xs)"

text \<open>
  \<open>re.search(f"<{tag}>(.*?)</{tag}>", text, re.DOTALL)\<close>: the leftmost match starts at
  the first opening tag that a closing tag follows, which is the first opening tag (a
  closing tag after a later one also follows the first), and the lazy group ends at the
  first closing tag after it. No match gives the empty string.
\<close>

definition parse_xml_content :: "string \<Rightarrow> string \<Rightarrow> string" where
  "parse_xml_content text tag =
     (case after_first text (''<'' @ tag @ ''>'') of
        None \<Rightarrow> []
      | Some rest \<Rightarrow>
          (case before_first rest (''</'' @ tag @ ''>'') of
             None \<Rightarrow> []
           | Some body \<Rightarrow> strip body))"

text \<open>
  Modelled from the spec: \<open>_extract_final_answer\<close> of \<^verbatim>\<open>dynamiq/nodes/agents/base.py\<close>,
  which is not among the sources: the text after the marker \<open>Answer:\<close>, trimmed.
\<close>

definition extract_final_answer :: "string \<Rightarrow> string" where
  "extract_final_answer llm_output_text =
     (case after_first llm_output_text ''Answer:'' of None \<Rightarrow> [] | Some rest \<Rightarrow> strip rest)"

definition extract_final_answer_xml :: "string \<Rightarrow> string" where
  "extract_final_answer_xml llm_output_text = parse_xml_content llm_output_text ''answer''"

text \<open>\<open>d[key]\<close> on a parsed JSON value.\<close>

definition getitem :: "pyval \<Rightarrow> string \<Rightarrow> exn + pyval" where
  "getitem d k =
     (case d of
        PDict kvs \<Rightarrow> (case map_of kvs k of None \<Rightarrow> Inl (Exn KeyError k None) | Some v \<Rightarrow> Inr v)
      | _ \<Rightarrow> Inl (Exn TypeError ''indices must be integers'' None))"

section \<open>The reasoning loop\<close>

datatype InferenceMode = DEFAULT | XML | FUNCTION_CALLING | STRUCTURED_OUTPUT

text \<open>
  The result of the model node as the loop reads it: \<open>output["content"]\<close> and
  \<open>output["tool_calls"][i]["function"]\<close> with its \<open>name\<close> and \<open>arguments\<close>; an absent
  key is \<open>None\<close>.
\<close>

record tool_call_function =
  name :: string
  arguments :: string

record LLMOutput =
  content :: "string option"
  tool_calls :: "tool_call_function list option"

record LLMResult =
  llm_status :: RunnableStatus
  llm_output :: LLMOutput

text \<open>
  The agent's attributes the loop reads. \<open>max_loops\<close> is validated to be at least
  \<open>1\<close> when the agent is built; of \<open>tools\<close> the loop tests only whether it is empty, so
  the names stand for the tool nodes.
\<close>

record ReActAgent =
  agent_name :: string
  agent_id :: string
  max_loops :: nat
  inference_mode :: InferenceMode
  tools :: "string list"
  streaming_enabled :: bool

text \<open>
  What the loop calls and this file does not define: the prompt renderer (from the
  accumulated context to the prompt), the model node (by loop index and prompt), the
  parser of the plain-text grammar, tool resolution and invocation
  (\<open>_get_tool\<close> then \<open>_run_tool\<close>), the JSON codec (\<open>None\<close> is a \<open>JSONDecodeError\<close>), and
  what the declaration of \<open>AgentMaxLoopsReached\<close> says of its base: whether it is
  \<open>RecoverableAgentException\<close>.
\<close>

record collaborators =
  generate_prompt :: "string \<Rightarrow> string"
  llm_run :: "nat \<Rightarrow> string \<Rightarrow> LLMResult"
  parse_action :: "string \<Rightarrow> exn + pyval \<times> pyval"
  run_tool :: "nat \<Rightarrow> pyval \<Rightarrow> pyval \<Rightarrow> exn + string"
  json_loads :: "string \<Rightarrow> pyval option"
  json_dumps :: "pyval \<Rightarrow> string"
  max_loops_is_recoverable :: bool

text \<open>
  The mutable state of one run: the list \<open>previous_responses\<close>, the dict
  \<open>_intermediate_steps\<close> (keyed by loop index, in insertion order) and the effects so far.
\<close>

record agent_state =
  previous_responses :: "string list"
  intermediate_steps :: "(nat \<times> IntermediateStep) list"
  effects :: "effect list"

definition tracing_intermediate :: "nat \<Rightarrow> string \<Rightarrow> string \<Rightarrow> agent_state \<Rightarrow> agent_state" where
  "tracing_intermediate loop_num formatted_prompt llm_generated_output st =
     st\<lparr>intermediate_steps :=
          AList.update loop_num
            \<lparr>prompt = formatted_prompt,
             model_observation = \<lparr>initial = Some llm_generated_output, tool_using = None,
                                  tool_input = None, tool_output = None, updated = None\<rparr>,
             final_answer = None\<rparr>
            (intermediate_steps st)\<rparr>"

text \<open>\<open>self._intermediate_steps[loop_num]["final_answer"] = ...\<close> needs the entry to exist.\<close>

definition tracing_final :: "ReActAgent \<Rightarrow> RunnableConfig \<Rightarrow> nat \<Rightarrow> pyval \<Rightarrow> agent_state
    \<Rightarrow> exn option \<times> agent_state" where
  "tracing_final self config loop_num answer st =
     (case map_of (intermediate_steps st) loop_num of
        None \<Rightarrow> (Some (Exn KeyError ''loop_num'' None), st)
      | Some step \<Rightarrow>
          (let st1 = st\<lparr>intermediate_steps :=
                         AList.update loop_num (step\<lparr>final_answer := Some answer\<rparr>)
                           (intermediate_steps st)\<rparr>
           in if streaming_enabled self
              then (case run_on_node_execute_stream (callbacks config)
                           (step\<lparr>final_answer := Some answer\<rparr>) (effects st1) of
                      (r, tr) \<Rightarrow> (r, st1\<lparr>effects := tr\<rparr>))
              else (None, st1)))"

text \<open>What a mode's branch of the \<open>match\<close> hands on: a final answer, or an action with its input and the text of the model output.\<close>

datatype parsed = FinalAnswer pyval | NextAction pyval pyval string

definition finish :: "ReActAgent \<Rightarrow> RunnableConfig \<Rightarrow> nat \<Rightarrow> pyval \<Rightarrow> agent_state
    \<Rightarrow> (exn + parsed) \<times> agent_state" where
  "finish self config loop_num answer st =
     (case tracing_final self config loop_num answer st of
        (Some e, st1) \<Rightarrow> (Inl e, st1)
      | (None, st1) \<Rightarrow> (Inr (FinalAnswer answer), st1))"

definition action_parsing_error :: exn where
  "action_parsing_error =
     Exn ActionParsingException
       (''Error: Could not parse action and action input.''
          @ ''Please rewrite in the appropriate XML format with action_input as a valid dictionary.'')
       None"

definition parse_xml_and_extract_info :: "collaborators \<Rightarrow> string \<Rightarrow> exn + pyval \<times> pyval" where
  "parse_xml_and_extract_info C text =
     (let output_content = parse_xml_content text ''output'';
          action = parse_xml_content output_content ''action'';
          action_input_text = parse_xml_content output_content ''action_input''
      in case json_loads C action_input_text of
           None \<Rightarrow> Inl action_parsing_error
         | Some action_input \<Rightarrow> Inr (PStr action, action_input))"

definition case_DEFAULT :: "ReActAgent \<Rightarrow> collaborators \<Rightarrow> RunnableConfig \<Rightarrow> nat \<Rightarrow> string \<Rightarrow> LLMOutput
    \<Rightarrow> agent_state \<Rightarrow> (exn + parsed) \<times> agent_state" where
  "case_DEFAULT self C config loop_num formatted_prompt out st =
     (case content out of
        None \<Rightarrow> (Inl (Exn KeyError ''content'' None), st)
      | Some llm_generated_output \<Rightarrow>
          (let st1 = tracing_intermediate loop_num formatted_prompt llm_generated_output st
           in if contains llm_generated_output ''Answer:''
              then finish self config loop_num (PStr (extract_final_answer llm_generated_output)) st1
              else (case parse_action C llm_generated_output of
                      Inl e \<Rightarrow> (Inl e, st1)
                    | Inr (action, action_input) \<Rightarrow>
                        (Inr (NextAction action action_input llm_generated_output), st1))))"

definition case_FUNCTION_CALLING :: "ReActAgent \<Rightarrow> collaborators \<Rightarrow> RunnableConfig \<Rightarrow> nat \<Rightarrow> string
    \<Rightarrow> LLMOutput \<Rightarrow> agent_state \<Rightarrow> (exn + parsed) \<times> agent_state" where
  "case_FUNCTION_CALLING self C config loop_num formatted_prompt out st =
     (case tool_calls out of
        None \<Rightarrow> (Inl (Exn KeyError ''tool_calls'' None), st)
      | Some [] \<Rightarrow> (Inl (Exn IndexError ''list index out of range'' None), st)
      | Some (call # calls) \<Rightarrow>
          (let function_name = strip (name call) in
           case json_loads C (arguments call) of
             None \<Rightarrow> (Inl (Exn JSONDecodeError [] None), st)
           | Some llm_generated_output_json \<Rightarrow>
               (let llm_generated_output = json_dumps C llm_generated_output_json;
                    st1 = tracing_intermediate loop_num formatted_prompt llm_generated_output st
                in if function_name = ''provide_final_answer''
                   then (case getitem llm_generated_output_json ''answer'' of
                           Inl e \<Rightarrow> (Inl e, st1)
                         | Inr answer \<Rightarrow> finish self config loop_num answer st1)
                   else (case getitem llm_generated_output_json ''action'' of
                           Inl e \<Rightarrow> (Inl e, st1)
                         | Inr action \<Rightarrow>
                             (case getitem llm_generated_output_json ''action_input'' of
                                Inl e \<Rightarrow> (Inl e, st1)
                              | Inr action_input \<Rightarrow>
                                  (Inr (NextAction action (PDict [(''input'', action_input)])
                                          llm_generated_output), st1))))))"

definition case_STRUCTURED_OUTPUT :: "ReActAgent \<Rightarrow> collaborators \<Rightarrow> RunnableConfig \<Rightarrow> nat \<Rightarrow> string
    \<Rightarrow> LLMOutput \<Rightarrow> agent_state \<Rightarrow> (exn + parsed) \<times> agent_state" where
  "case_STRUCTURED_OUTPUT self C config loop_num formatted_prompt out st =
     (case content out of
        None \<Rightarrow> (Inl (Exn KeyError ''content'' None), st)
      | Some text \<Rightarrow>
          (case json_loads C text of
             None \<Rightarrow> (Inl (Exn JSONDecodeError [] None), st)
           | Some llm_generated_output_json \<Rightarrow>
               (case getitem llm_generated_output_json ''action'' of
                  Inl e \<Rightarrow> (Inl e, st)
                | Inr action \<Rightarrow>
                    (case getitem llm_generated_output_json ''action_input'' of
                       Inl e \<Rightarrow> (Inl e, st)
                     | Inr action_input \<Rightarrow>
                         (let llm_generated_output = json_dumps C llm_generated_output_json;
                              st1 = tracing_intermediate loop_num formatted_prompt llm_generated_output st
                          in if action = PStr ''finish''
                             then finish self config loop_num action_input st1
                             else (Inr (NextAction action (PDict [(''input'', action_input)])
                                          llm_generated_output), st1))))))"

definition case_XML :: "ReActAgent \<Rightarrow> collaborators \<Rightarrow> RunnableConfig \<Rightarrow> nat \<Rightarrow> string \<Rightarrow> LLMOutput
    \<Rightarrow> agent_state \<Rightarrow> (exn + parsed) \<times> agent_state" where
  "case_XML self C config loop_num formatted_prompt out st =
     (case content out of
        None \<Rightarrow> (Inl (Exn KeyError ''content'' None), st)
      | Some llm_generated_output \<Rightarrow>
          (let st1 = tracing_intermediate loop_num formatted_prompt llm_generated_output st
           in if contains llm_generated_output ''<answer>''
              then finish self config loop_num (PStr (extract_final_answer_xml llm_generated_output)) st1
              else (case parse_xml_and_extract_info C llm_generated_output of
                      Inl e \<Rightarrow> (Inl e, st1)
                    | Inr (action, action_input) \<Rightarrow>
                        (Inr (NextAction action action_input llm_generated_output), st1))))"

text \<open>
  Lines 419 to 452: tool dispatch and the append to the context. A
  \<open>RecoverableAgentException\<close> of the tool becomes the observation text; any other
  exception leaves the block. The \<open>update\<close> of \<open>model_observation\<close> writes every field of
  a fresh observation, so \<open>initial\<close> returns to its default.
\<close>

definition act :: "ReActAgent \<Rightarrow> collaborators \<Rightarrow> RunnableConfig \<Rightarrow> nat \<Rightarrow> pyval \<Rightarrow> pyval \<Rightarrow> string
    \<Rightarrow> agent_state \<Rightarrow> (exn + unit) \<times> agent_state" where
  "act self C config loop_num action action_input llm_generated_output st =
     (if truthy action \<and> tools self \<noteq> [] then
        (let st1 = st\<lparr>effects := effects st @ [ToolCalled action action_input]\<rparr> in
         case (case run_tool C loop_num action action_input of
                 Inr tool_result \<Rightarrow> Inr tool_result
               | Inl e \<Rightarrow>
                   if isinstance e RecoverableAgentException
                   then Inr (class_name (exn_cls e) @ '': '' @ exn_msg e)
                   else Inl e) of
           Inl e \<Rightarrow> (Inl e, st1)
         | Inr tool_result \<Rightarrow>
             (let observed = llm_generated_output @ [CHR 0x0A] @ ''Observation: '' @ tool_result @ [CHR 0x0A]
              in case map_of (intermediate_steps st1) loop_num of
                   None \<Rightarrow> (Inl (Exn KeyError ''loop_num'' None), st1)
                 | Some step \<Rightarrow>
                     (let step1 = step\<lparr>model_observation :=
                                         \<lparr>initial = None, tool_using = Some action,
                                          tool_input = Some action_input,
                                          tool_output = Some tool_result,
                                          updated = Some observed\<rparr>\<rparr>;
                          st2 = st1\<lparr>intermediate_steps :=
                                       AList.update loop_num step1 (intermediate_steps st1)\<rparr>
                      in if streaming_enabled self
                         then (case run_on_node_execute_stream (callbacks config) step1 (effects st2) of
                                 (Some e, tr) \<Rightarrow> (Inl e, st2\<lparr>effects := tr\<rparr>)
                               | (None, tr) \<Rightarrow>
                                   (Inr (), st2\<lparr>effects := tr,
                                                previous_responses := previous_responses st2 @ [observed]\<rparr>))
                         else (Inr (), st2\<lparr>previous_responses := previous_responses st2 @ [observed]\<rparr>))))
      else (Inr (), st\<lparr>previous_responses := previous_responses st @ [llm_generated_output]\<rparr>))"

text \<open>How one pass through the body of the \<open>for\<close> loop ends.\<close>

datatype flow = Continue | Return pyval | Raise exn

text \<open>The \<open>try\<close> block of the loop body, after the model has been called.\<close>

definition try_block :: "ReActAgent \<Rightarrow> collaborators \<Rightarrow> RunnableConfig \<Rightarrow> nat \<Rightarrow> string \<Rightarrow> LLMResult
    \<Rightarrow> agent_state \<Rightarrow> flow \<times> agent_state" where
  "try_block self C config loop_num formatted_prompt llm_result st =
     (if llm_status llm_result \<noteq> SUCCESS then
        (case content (llm_output llm_result) of
           None \<Rightarrow> (Raise (Exn KeyError ''content'' None), st)
         | Some text \<Rightarrow> (Continue, st\<lparr>previous_responses := previous_responses st @ [text]\<rparr>))
      else
        (case (case inference_mode self of
                 DEFAULT \<Rightarrow> case_DEFAULT self C config loop_num formatted_prompt (llm_output llm_result) st
               | FUNCTION_CALLING \<Rightarrow>
                   case_FUNCTION_CALLING self C config loop_num formatted_prompt (llm_output llm_result) st
               | STRUCTURED_OUTPUT \<Rightarrow>
                   case_STRUCTURED_OUTPUT self C config loop_num formatted_prompt (llm_output llm_result) st
               | XML \<Rightarrow> case_XML self C config loop_num formatted_prompt (llm_output llm_result) st) of
           (Inl e, st1) \<Rightarrow> (Raise e, st1)
         | (Inr (FinalAnswer answer), st1) \<Rightarrow> (Return answer, st1)
         | (Inr (NextAction action action_input llm_generated_output), st1) \<Rightarrow>
             (case act self C config loop_num action action_input llm_generated_output st1 of
                (Inl e, st2) \<Rightarrow> (Raise e, st2)
              | (Inr u, st2) \<Rightarrow> (Continue, st2))))"

text \<open>
  One pass: the prompt is rendered from the newline-joined context, the model is called,
  and an \<open>ActionParsingException\<close> leaving the \<open>try\<close> block is appended to the context.
\<close>

definition loop_body :: "ReActAgent \<Rightarrow> collaborators \<Rightarrow> RunnableConfig \<Rightarrow> nat \<Rightarrow> agent_state
    \<Rightarrow> flow \<times> agent_state" where
  "loop_body self C config loop_num st =
     (let formatted_prompt = generate_prompt C (join [CHR 0x0A] (previous_responses st));
          llm_result = llm_run C loop_num formatted_prompt;
          st0 = st\<lparr>effects := effects st @ [ModelCalled loop_num formatted_prompt]\<rparr>
      in case try_block self C config loop_num formatted_prompt llm_result st0 of
           (Raise e, st1) \<Rightarrow>
             if isinstance e ActionParsingException
             then (Continue, st1\<lparr>previous_responses :=
                                   previous_responses st1 @ [class_name (exn_cls e) @ '': '' @ exn_msg e]\<rparr>)
             else (Raise e, st1)
         | (Continue, st1) \<Rightarrow> (Continue, st1)
         | (Return answer, st1) \<Rightarrow> (Return answer, st1))"

text \<open>
  The error raised after the loop. Its class is declared in
  \<^verbatim>\<open>dynamiq/nodes/agents/exceptions.py\<close>; whether that class is recoverable is read from
  the collaborators.
\<close>

definition max_loops_error :: "ReActAgent \<Rightarrow> collaborators \<Rightarrow> exn" where
  "max_loops_error self C =
     Exn (AgentMaxLoopsReached (max_loops_is_recoverable C))
       (''Agent '' @ agent_name self @ '' - '' @ agent_id self @ '': Maximum number of loops reached.'')
       None"

text \<open>\<open>for loop_num in range(self.max_loops)\<close>, over the indices still to run.\<close>

fun loop :: "ReActAgent \<Rightarrow> collaborators \<Rightarrow> RunnableConfig \<Rightarrow> nat list \<Rightarrow> agent_state
    \<Rightarrow> (exn + pyval) \<times> agent_state" where
  "loop self C config [] st = (Inl (max_loops_error self C), st)"
| "loop self C config (loop_num # rest) st =
     (case loop_body self C config loop_num st of
        (Continue, st1) \<Rightarrow> loop self C config rest st1
      | (Return answer, st1) \<Rightarrow> (Inr answer, st1)
      | (Raise e, st1) \<Rightarrow> (Inl e, st1))"

text \<open>
  \<open>_run_agent\<close>, started with the \<open>_intermediate_steps\<close> the instance holds;
  \<open>previous_responses\<close> starts empty.
\<close>

definition run_agent :: "ReActAgent \<Rightarrow> collaborators \<Rightarrow> RunnableConfig \<Rightarrow> (nat \<times> IntermediateStep) list
    \<Rightarrow> (exn + pyval) \<times> agent_state" where
  "run_agent self C config steps =
     loop self C config [0 ..< max_loops self]
       \<lparr>previous_responses = [], intermediate_steps = steps, effects = []\<rparr>"



section \<open>Notions the statements use\<close>

text \<open>The indices under which steps are stored, in insertion order.\<close>

definition step_keys :: "agent_state \<Rightarrow> nat list" where
  "step_keys st = map fst (intermediate_steps st)"

text \<open>The loop indices of the model calls in a list of effects, in order.\<close>

fun model_calls :: "effect list \<Rightarrow> nat list" where
  "model_calls [] = []"
| "model_calls (ModelCalled i p # es) = i # model_calls es"
| "model_calls (e # es) = model_calls es"


text \<open>
  A model output the agent's mode can decode far enough to reach
  \<open>tracing_intermediate\<close>: the text is there, or the first tool call's arguments are
  valid JSON, or the structured object is valid JSON with its two keys.
\<close>

definition decodable :: "ReActAgent \<Rightarrow> collaborators \<Rightarrow> LLMOutput \<Rightarrow> bool" where
  "decodable self C out =
     (case inference_mode self of
        DEFAULT \<Rightarrow> content out \<noteq> None
      | XML \<Rightarrow> content out \<noteq> None
      | FUNCTION_CALLING \<Rightarrow>
          (case tool_calls out of
             None \<Rightarrow> False
           | Some [] \<Rightarrow> False
           | Some (call # calls) \<Rightarrow> json_loads C (arguments call) \<noteq> None)
      | STRUCTURED_OUTPUT \<Rightarrow>
          (case content out of
             None \<Rightarrow> False
           | Some body \<Rightarrow>
               (case json_loads C body of
                  None \<Rightarrow> False
                | Some j \<Rightarrow>
                    (case getitem j ''action'' of
                       Inl e \<Rightarrow> False
                     | Inr a \<Rightarrow> (case getitem j ''action_input'' of Inl e \<Rightarrow> False | Inr ai \<Rightarrow> True)))))"

section \<open>Concrete nodes and agents\<close>

definition quiet_handler :: BaseCallbackHandler where
  "quiet_handler ev = None"

definition boom :: exn where
  "boom = Exn (OtherException ''ValueError'') ''boom'' None"

definition failing_execute :: "nat \<Rightarrow> pyval \<Rightarrow> attempt" where
  "failing_execute n input_data = \<lparr>duration = 0, outcome = Inl boom\<rparr>"

definition plain_node :: Node where
  "plain_node =
     \<lparr>node_id = ''n1'',
      error_handling = \<lparr>timeout_seconds = None, retry_interval_seconds = 1, max_retries = 0,
                        backoff_rate = 1\<rparr>,
      input_transformer = \<lparr>path = None, selector = None\<rparr>,
      output_transformer = \<lparr>path = None, selector = None\<rparr>,
      caching_enabled = False,
      depends = [],
      execute = failing_execute\<rparr>"

definition retry_node :: Node where
  "retry_node =
     plain_node\<lparr>error_handling := \<lparr>timeout_seconds = None, retry_interval_seconds = 2,
                                     max_retries = 2, backoff_rate = 3\<rparr>\<rparr>"

definition long_interval_node :: Node where
  "long_interval_node =
     plain_node\<lparr>error_handling := \<lparr>timeout_seconds = None, retry_interval_seconds = 10000000000,
                                     max_retries = 1, backoff_rate = 1\<rparr>\<rparr>"

definition quiet_config :: RunnableConfig where
  "quiet_config = \<lparr>callbacks = [quiet_handler], cache = None\<rparr>"

definition example_helpers :: helpers where
  "example_helpers =
     \<lparr>jsonpath_filter = (\<lambda>data p nid. Inr data),
      jsonpath_mapper = (\<lambda>data sel nid. Inr data),
      format_value = (\<lambda>e r. PDict [(''content'', PStr (exn_msg e)),
                                     (''recoverable'', case r of None \<Rightarrow> PNone | Some b \<Rightarrow> PBool b)]),
      to_tracing_depend_dict = (\<lambda>r. PDict [(''output'', output r)]),
      to_depend_dict = (\<lambda>r. PDict [(''output'', output r)])\<rparr>"

definition ok_execute :: "nat \<Rightarrow> pyval \<Rightarrow> attempt" where
  "ok_execute n input_data = \<lparr>duration = 0, outcome = Inr (PDict [(''content'', PStr ''done'')])\<rparr>"

definition observer_error :: exn where
  "observer_error = Exn (OtherException ''RuntimeError'') ''observer failed'' None"

definition error_raising_handler :: BaseCallbackHandler where
  "error_raising_handler ev = (case ev of on_node_error e \<Rightarrow> Some observer_error | _ \<Rightarrow> None)"

definition noisy_config :: RunnableConfig where
  "noisy_config = \<lparr>callbacks = [error_raising_handler], cache = None\<rparr>"

definition dependent_node :: Node where
  "dependent_node = plain_node\<lparr>depends := [\<lparr>node = ''a'', option = None\<rparr>], execute := ok_execute\<rparr>"


definition two_edge_node :: Node where
  "two_edge_node =
     plain_node\<lparr>depends := [\<lparr>node = ''a'', option = Some ''yes''\<rparr>, \<lparr>node = ''b'', option = None\<rparr>],
                execute := ok_execute\<rparr>"

definition failing_dependent_node :: Node where
  "failing_dependent_node = plain_node\<lparr>depends := [\<lparr>node = ''a'', option = None\<rparr>]\<rparr>"





definition flaky_agent :: ReActAgent where
  "flaky_agent =
     \<lparr>agent_name = ''React'', agent_id = ''agent-2'', max_loops = 2, inference_mode = DEFAULT,
      tools = [], streaming_enabled = False\<rparr>"

definition flaky_collaborators :: collaborators where
  "flaky_collaborators =
     \<lparr>generate_prompt = (\<lambda>ctx. ''User request: q. '' @ ctx),
      llm_run = (\<lambda>i p. if i = 0
                        then \<lparr>llm_status = FAILURE,
                              llm_output = \<lparr>content = Some ''timeout'', tool_calls = None\<rparr>\<rparr>
                        else \<lparr>llm_status = SUCCESS,
                              llm_output = \<lparr>content = Some ''Thought: known. Answer: 42 '',
                                            tool_calls = None\<rparr>\<rparr>),
      parse_action = (\<lambda>t. Inl action_parsing_error),
      run_tool = (\<lambda>i a ai. Inr []),
      json_loads = (\<lambda>s. None),
      json_dumps = (\<lambda>v. []),
      max_loops_is_recoverable = True\<rparr>"

definition fresh_state :: agent_state where
  "fresh_state = \<lparr>previous_responses = [], intermediate_steps = [], effects = []\<rparr>"

definition tool_failure :: exn where
  "tool_failure = Exn (OtherRecoverable ''ToolExecutionException'') ''rate limited'' None"

definition recoverable_execute :: "nat \<Rightarrow> pyval \<Rightarrow> attempt" where
  "recoverable_execute n input_data = \<lparr>duration = 0, outcome = Inl tool_failure\<rparr>"

definition recoverable_node :: Node where
  "recoverable_node = plain_node\<lparr>execute := recoverable_execute\<rparr>"



definition calling_agent :: ReActAgent where
  "calling_agent =
     \<lparr>agent_name = ''React'', agent_id = ''agent-4'', max_loops = 5, inference_mode = FUNCTION_CALLING,
      tools = [''search''], streaming_enabled = True\<rparr>"

definition calling_collaborators :: collaborators where
  "calling_collaborators =
     \<lparr>generate_prompt = (\<lambda>ctx. ''User request: q. '' @ ctx),
      llm_run = (\<lambda>i p. \<lparr>llm_status = SUCCESS,
                          llm_output = \<lparr>content = None,
                                        tool_calls = Some [\<lparr>name = ''provide_final_answer'',
                                                            arguments = ''{thought: t, answer: 42}''\<rparr>]\<rparr>\<rparr>),
      parse_action = (\<lambda>t. Inl action_parsing_error),
      run_tool = (\<lambda>i a ai. Inr []),
      json_loads = (\<lambda>s. if s = ''{thought: t, answer: 42}''
                          then Some (PDict [(''thought'', PStr ''t''), (''answer'', PStr ''42'')])
                          else None),
      json_dumps = (\<lambda>v. ''{thought: t, answer: 42}''),
      max_loops_is_recoverable = True\<rparr>"

section \<open>Callbacks that return\<close>

lemma emit_returns:
  "returns_normally cbs ev \<Longrightarrow> emit cbs ev tr = (None, tr @ replicate (length cbs) (Emitted ev))"
  by (induction cbs arbitrary: tr) (simp_all add: returns_normally_def replicate_app_Cons_same)

section \<open>Retry and backoff\<close>

lemma retry_loop_all_fail:
  assumes fails: "\<forall>a. execute_with_timeout self (timeout_seconds (error_handling self)) a input_data = Inl (err a)"
    and st: "returns_normally (callbacks config) (on_node_execute_start input_data)"
    and er: "\<forall>e. returns_normally (callbacks config) (on_node_execute_error e)"
    and nonneg: "0 \<le> retry_interval_seconds (error_handling self)" "0 \<le> backoff_rate (error_handling self)"
    and fits: "\<forall>a. int a < max_retries (error_handling self) \<longrightarrow>
                 \<not> float_pow_overflows (backoff_rate (error_handling self)) a
               \<and> \<not> sleep_overflows (retry_interval_seconds (error_handling self)
                                        * backoff_rate (error_handling self) ^ a)"
  shows "retry_loop self config input_data as error tr =
     ((if as = [] then (case error of None \<Rightarrow> Inl (Exn TypeError ''exceptions must derive from BaseException'' None) | Some e \<Rightarrow> Inl e)
         else Inl (err (last as))),
      tr @ concat (map (\<lambda>a. attempt_trace (callbacks config) input_data err a
                       @ (if int a < max_retries (error_handling self)
                          then [Slept (retry_interval_seconds (error_handling self) * backoff_rate (error_handling self) ^ a)]
                          else [])) as))"
proof (induction as arbitrary: error tr)
  case Nil
  show ?case by (simp split: option.splits)
next
  case (Cons a as)
  have "0 \<le> retry_interval_seconds (error_handling self) * backoff_rate (error_handling self) ^ a"
    using nonneg by simp
  then have "\<not> retry_interval_seconds (error_handling self) * backoff_rate (error_handling self) ^ a < 0"
    by simp
  then show ?case
    using fails er fits
    by (simp add: run_on_node_execute_start_def run_on_node_execute_error_def emit_returns[OF st]
        emit_returns Cons.IH attempt_trace_def Let_def)
qed

text \<open>
  C2, as stated, fails: with \<open>max_retries = 1\<close>, interval \<open>10000000000\<close> seconds and rate
  \<open>1\<close>, attempt \<open>0\<close> fails and the sleep that follows it raises \<open>OverflowError\<close>, outside
  the \<open>try\<close>: one attempt is made, not two, and the error that leaves
  \<open>execute_with_retry\<close> is not the error of an attempt.
\<close>

theorem sleep_overflow_counterexample:
  "execute_with_retry long_interval_node (PDict []) (Some quiet_config) [] =
     (Inl (Exn OverflowError ''timestamp too large to convert to C _PyTime_t'' None),
      [Emitted (on_node_execute_start (PDict [])), Executed 0, Emitted (on_node_execute_error boom)])"
proof -
  have u: "[0 ..< 2] = [0, 1::nat]" by code_simp
  show ?thesis
    by (simp add: execute_with_retry_def long_interval_node_def plain_node_def quiet_config_def
        quiet_handler_def ensure_config_def run_on_node_execute_start_def run_on_node_execute_error_def
        execute_with_timeout_def failing_execute_def float_pow_overflows_def sleep_overflows_def
        max_float_def u)
qed

text \<open>
  C2, amended. A node with \<open>max_retries = N \<ge> 0\<close> whose \<open>execute\<close> fails on every attempt
  (it raises, or it exceeds the timeout), and whose sleep lengths can be computed and
  slept (for each attempt \<open>a < N\<close> the power \<open>backoff_rate ^ a\<close> is within the range of a
  float and \<open>retry_interval_seconds * backoff_rate ^ a\<close> is a length \<open>time.sleep\<close> accepts),
  makes exactly the attempts \<open>0 \<dots> N\<close>, sleeps that length after each attempt \<open>a < N\<close>,
  does not sleep after attempt \<open>N\<close>, and raises the error of attempt \<open>N\<close>. The trace is
  given in full. The interval and the rate are non-negative, as the data model has them,
  and the registered handlers are taken to return from the two execute hooks.
\<close>

theorem execute_with_retry_exhausts:
  assumes "0 \<le> max_retries (error_handling self)"
    and "\<forall>a. execute_with_timeout self (timeout_seconds (error_handling self)) a input_data = Inl (err a)"
    and "returns_normally (callbacks (ensure_config config)) (on_node_execute_start input_data)"
    and "\<forall>e. returns_normally (callbacks (ensure_config config)) (on_node_execute_error e)"
    and "0 \<le> retry_interval_seconds (error_handling self)"
    and "0 \<le> backoff_rate (error_handling self)"
    and "\<forall>a. int a < max_retries (error_handling self) \<longrightarrow>
           \<not> float_pow_overflows (backoff_rate (error_handling self)) a
         \<and> \<not> sleep_overflows (retry_interval_seconds (error_handling self)
                                  * backoff_rate (error_handling self) ^ a)"
  shows "execute_with_retry self input_data config [] =
     (Inl (err (nat (max_retries (error_handling self)))),
      concat (map (\<lambda>a. attempt_trace (callbacks (ensure_config config)) input_data err a
                     @ [Slept (retry_interval_seconds (error_handling self)
                                 * backoff_rate (error_handling self) ^ a)])
                [0 ..< nat (max_retries (error_handling self))])
        @ attempt_trace (callbacks (ensure_config config)) input_data err
            (nat (max_retries (error_handling self))))"
proof -
  define N where "N = nat (max_retries (error_handling self))"
  have n: "nat (max_retries (error_handling self) + 1) = Suc N"
    using assms(1) by (simp add: N_def nat_add_distrib)
  have lt: "\<And>a. a < N \<Longrightarrow> int a < max_retries (error_handling self)"
    using assms(1) by (simp add: N_def)
  have nlt: "\<not> int N < max_retries (error_handling self)"
    using assms(1) by (simp add: N_def)
  have sleeps: "map (\<lambda>a. attempt_trace (callbacks (ensure_config config)) input_data err a
                     @ (if int a < max_retries (error_handling self)
                        then [Slept (retry_interval_seconds (error_handling self)
                                 * backoff_rate (error_handling self) ^ a)] else [])) [0 ..< N]
      = map (\<lambda>a. attempt_trace (callbacks (ensure_config config)) input_data err a
                     @ [Slept (retry_interval_seconds (error_handling self)
                                 * backoff_rate (error_handling self) ^ a)]) [0 ..< N]"
    by (rule map_cong) (simp_all add: lt)
  show ?thesis
    unfolding execute_with_retry_def n N_def[symmetric]
    by (simp add: retry_loop_all_fail[OF assms(2,3,4,5,6,7)] nlt sleeps)
qed

text \<open>
  Witness for C2: \<open>max_retries = 2\<close>, interval \<open>2\<close>, rate \<open>3\<close>: three attempts, sleeps
  of \<open>2\<close> and \<open>6\<close>, none after the last.
\<close>

theorem execute_with_retry_exhausts_witness:
  "execute_with_retry retry_node (PDict []) (Some quiet_config) [] =
     (Inl boom,
      [Emitted (on_node_execute_start (PDict [])), Executed 0, Emitted (on_node_execute_error boom), Slept 2,
       Emitted (on_node_execute_start (PDict [])), Executed 1, Emitted (on_node_execute_error boom), Slept 6,
       Emitted (on_node_execute_start (PDict [])), Executed 2, Emitted (on_node_execute_error boom)])"
proof -
  have n: "0 \<le> max_retries (error_handling retry_node)"
    by (simp add: retry_node_def plain_node_def)
  have f: "\<forall>a. execute_with_timeout retry_node (timeout_seconds (error_handling retry_node)) a (PDict [])
             = Inl ((\<lambda>a. boom) a)"
    by (simp add: retry_node_def plain_node_def execute_with_timeout_def failing_execute_def)
  have s: "returns_normally (callbacks (ensure_config (Some quiet_config))) (on_node_execute_start (PDict []))"
    by (simp add: quiet_config_def quiet_handler_def returns_normally_def ensure_config_def)
  have e: "\<forall>e. returns_normally (callbacks (ensure_config (Some quiet_config))) (on_node_execute_error e)"
    by (simp add: quiet_config_def quiet_handler_def returns_normally_def ensure_config_def)
  have u: "[0 ..< 2] = [0, 1::nat]" by code_simp
  have i: "0 \<le> retry_interval_seconds (error_handling retry_node)"
    "0 \<le> backoff_rate (error_handling retry_node)"
    by (simp_all add: retry_node_def plain_node_def)
  have o: "\<forall>a. int a < max_retries (error_handling retry_node) \<longrightarrow>
           \<not> float_pow_overflows (backoff_rate (error_handling retry_node)) a
         \<and> \<not> sleep_overflows (retry_interval_seconds (error_handling retry_node)
                                  * backoff_rate (error_handling retry_node) ^ a)"
  proof (intro allI impI)
    fix a :: nat
    assume "int a < max_retries (error_handling retry_node)"
    then have "a = 0 \<or> a = 1" by (auto simp: retry_node_def plain_node_def)
    then show "\<not> float_pow_overflows (backoff_rate (error_handling retry_node)) a
         \<and> \<not> sleep_overflows (retry_interval_seconds (error_handling retry_node)
                                  * backoff_rate (error_handling retry_node) ^ a)"
      by (auto simp: retry_node_def plain_node_def float_pow_overflows_def sleep_overflows_def
          max_float_def)
  qed
  from execute_with_retry_exhausts[OF n f s e i o]
  show ?thesis
    by (simp add: retry_node_def plain_node_def quiet_config_def ensure_config_def attempt_trace_def u)
qed

section \<open>Dependency validation and the skip path\<close>

lemma validate_dependency_status_error:
  "validate_dependency_status d dr = Inl e \<Longrightarrow> isinstance e NodeException \<and> failed_depend e = Some d"
  by (auto simp: validate_dependency_status_def isinstance_def issubclass_def
      split: option.splits if_splits)

lemma validate_dependency_condition_error:
  "validate_dependency_condition d dr = Inl e \<Longrightarrow> isinstance e NodeException \<Longrightarrow> failed_depend e = Some d"
  by (auto simp: validate_dependency_condition_def isinstance_def issubclass_def
      split: option.splits if_splits pyval.splits)

lemma validate_depends_loop_blocked:
  assumes "d \<in> set deps"
    and "(\<exists>e0. validate_dependency_status d dr = Inl e0)
       \<or> (option d \<noteq> None \<and> option d \<noteq> Some [] \<and> (\<exists>e0. validate_dependency_condition d dr = Inl e0))"
  shows "\<exists>e. validate_depends_loop deps dr = Inl e"
  using assms
proof (induction deps)
  case Nil
  then show ?case by simp
next
  case (Cons a deps)
  show ?case
  proof (cases "a = d")
    case True
    with Cons.prems(2) show ?thesis by (auto split: sum.splits)
  next
    case False
    with Cons have "\<exists>e. validate_depends_loop deps dr = Inl e" by simp
    then show ?thesis by (auto split: sum.splits)
  qed
qed

lemma validate_depends_loop_error:
  assumes "validate_depends_loop deps dr = Inl e"
    and "\<forall>d\<in>set deps. \<forall>e. validate_dependency_condition d dr = Inl e \<longrightarrow> isinstance e NodeException"
  shows "isinstance e NodeException \<and> (\<exists>d\<in>set deps. failed_depend e = Some d)"
  using assms
proof (induction deps)
  case Nil
  then show ?case by simp
next
  case (Cons a deps)
  show ?case
  proof (cases "validate_dependency_status a dr")
    case (Inl e1)
    with Cons.prems(1) have "e1 = e" by simp
    with Inl validate_dependency_status_error[of a dr e] show ?thesis by simp
  next
    case (Inr u)
    note st = this
    show ?thesis
    proof (cases "option a \<noteq> None \<and> option a \<noteq> Some [] \<and> (\<exists>e1. validate_dependency_condition a dr = Inl e1)")
      case True
      then obtain e1 where e1: "validate_dependency_condition a dr = Inl e1" by blast
      with True st Cons.prems(1) have "e1 = e" by simp
      moreover from e1 Cons.prems(2) have "isinstance e1 NodeException" by simp
      ultimately show ?thesis using validate_dependency_condition_error[OF e1] by simp
    next
      case False
      with st Cons.prems(1) have "validate_depends_loop deps dr = Inl e"
        by (auto split: sum.splits if_splits)
      with Cons.IH Cons.prems(2) show ?thesis by simp
    qed
  qed
qed

lemma run_not_validated:
  assumes "validate_depends self dr = Inl e"
    and "fst (run H self input_data config (Some dr)) = Inr res"
  shows "status res = SKIP"
  using assms
  by (auto simp: run_def Let_def split: sum.splits if_splits option.splits prod.splits)

lemma run_skip:
  assumes "validate_depends self dr = Inl e"
    and "isinstance e NodeException"
    and "failed_depend e = Some d"
    and "returns_normally (callbacks (ensure_config config))
           (on_node_skip d (PDict (dict_or kvs (map (\<lambda>kr. (fst kr, to_tracing_depend_dict H (snd kr))) dr))))"
  shows "run H self (PDict kvs) config (Some dr) =
     (Inr \<lparr>status = SKIP,
           input = PDict (dict_or kvs (map (\<lambda>kr. (fst kr, to_tracing_depend_dict H (snd kr))) dr)),
           output = format_value H e None\<rparr>,
      replicate (length (callbacks (ensure_config config)))
        (Emitted (on_node_skip d (PDict (dict_or kvs (map (\<lambda>kr. (fst kr, to_tracing_depend_dict H (snd kr))) dr))))))"
  using assms
  by (simp add: run_def Let_def py_or_def run_on_node_skip_def emit_returns)

lemma run_body_result:
  assumes "run_body H self cfg inp ti dr tr = (Inr r, tr')"
  shows "status r = SUCCESS \<and>
     (if transformer_configured (input_transformer self)
      then \<exists>kvs. inp = PDict kvs \<and>
             transform_input H self (PDict (dict_or kvs (map (\<lambda>kr. (fst kr, to_depend_dict H (snd kr))) dr)))
               = Inr (input r)
      else input r = ti)"
  using assms
  by (auto simp: run_body_def effective_input_def py_or_def split: sum.splits prod.splits option.splits if_splits pyval.splits)


text \<open>
  C3, as stated, fails: the first edge is gated by \<open>yes\<close> and its predecessor succeeded
  with the output \<open>{yes: x}\<close>, the second edge's predecessor failed. The gate check of
  the first edge reads \<open>status\<close> from a string: \<open>AttributeError\<close>, which the handler for
  \<open>NodeException\<close> does not catch, so \<open>run\<close> raises and neither returns a result nor
  emits the skip callback. With an input that is not a mapping, the merge before the
  \<open>try\<close> raises \<open>TypeError\<close>, whatever the dependencies.
\<close>

theorem gate_field_without_status_counterexample:
  "run example_helpers two_edge_node (PDict []) (Some quiet_config)
     (Some [(''a'', \<lparr>status = SUCCESS, input = PNone, output = PDict [(''yes'', PStr ''x'')]\<rparr>),
            (''b'', \<lparr>status = FAILURE, input = PNone, output = PStr ''down''\<rparr>)])
     = (Inl (Exn AttributeError ''object has no attribute status'' None), [])
   \<and> run example_helpers dependent_node (PStr ''q'') (Some quiet_config)
     (Some [(''a'', \<lparr>status = FAILURE, input = PNone, output = PStr ''down''\<rparr>)])
     = (Inl (Exn TypeError ''unsupported operand type(s) for |'' None), [])"
  by (simp add: run_def two_edge_node_def dependent_node_def plain_node_def example_helpers_def
      quiet_config_def ensure_config_def validate_depends_def validate_dependency_status_def
      validate_dependency_condition_def dict_or_def py_or_def isinstance_def issubclass_def)

text \<open>
  C3, amended. When some declared dependency's result has status \<open>FAILURE\<close> or
  \<open>SKIP\<close>, a result that \<open>run\<close> returns is never \<open>FAILURE\<close> or \<open>SUCCESS\<close>: its status is
  \<open>SKIP\<close>. When the input is a mapping, the gate fields read on the way are results (no
  gate check raises anything but a \<open>NodeException\<close>) and the skip handlers return,
  \<open>run\<close> returns the \<open>SKIP\<close> result whose input is the merged tracing view and whose
  output is the formatted \<open>NodeException\<close> that validation raised, which names a
  declared dependency; the trace is the skip hook, once per handler, and nothing else.
\<close>

theorem run_skips_after_failed_dependency:
  assumes "d \<in> set (depends self)"
    and "map_of dr (node d) = Some r"
    and "status r = FAILURE \<or> status r = SKIP"
  shows "(\<forall>res. fst (run H self input_data config (Some dr)) = Inr res \<longrightarrow> status res = SKIP)
     \<and> ((\<forall>g\<in>set (depends self). \<forall>e. validate_dependency_condition g dr = Inl e \<longrightarrow> isinstance e NodeException)
          \<and> (\<forall>g m. returns_normally (callbacks (ensure_config config)) (on_node_skip g m))
        \<longrightarrow> (\<exists>e g. validate_depends self dr = Inl e \<and> isinstance e NodeException
               \<and> g \<in> set (depends self) \<and> failed_depend e = Some g
               \<and> run H self (PDict kvs) config (Some dr) =
                   (Inr \<lparr>status = SKIP,
                         input = PDict (dict_or kvs (map (\<lambda>kr. (fst kr, to_tracing_depend_dict H (snd kr))) dr)),
                         output = format_value H e None\<rparr>,
                    replicate (length (callbacks (ensure_config config)))
                      (Emitted (on_node_skip g
                         (PDict (dict_or kvs (map (\<lambda>kr. (fst kr, to_tracing_depend_dict H (snd kr))) dr))))))))"
proof -
  have "\<exists>e0. validate_dependency_status d dr = Inl e0"
    using assms(2,3) by (auto simp: validate_dependency_status_def)
  then obtain e where e: "validate_depends self dr = Inl e"
    using validate_depends_loop_blocked[OF assms(1), of dr] by (auto simp: validate_depends_def)
  have first: "\<forall>res. fst (run H self input_data config (Some dr)) = Inr res \<longrightarrow> status res = SKIP"
    using run_not_validated[OF e] by blast
  have second: "\<exists>e g. validate_depends self dr = Inl e \<and> isinstance e NodeException
               \<and> g \<in> set (depends self) \<and> failed_depend e = Some g
               \<and> run H self (PDict kvs) config (Some dr) =
                   (Inr \<lparr>status = SKIP,
                         input = PDict (dict_or kvs (map (\<lambda>kr. (fst kr, to_tracing_depend_dict H (snd kr))) dr)),
                         output = format_value H e None\<rparr>,
                    replicate (length (callbacks (ensure_config config)))
                      (Emitted (on_node_skip g
                         (PDict (dict_or kvs (map (\<lambda>kr. (fst kr, to_tracing_depend_dict H (snd kr))) dr))))))"
    if typed: "\<forall>g\<in>set (depends self). \<forall>e. validate_dependency_condition g dr = Inl e \<longrightarrow> isinstance e NodeException"
      and quiet: "\<forall>g m. returns_normally (callbacks (ensure_config config)) (on_node_skip g m)"
  proof -
    from validate_depends_loop_error[OF e[unfolded validate_depends_def] typed]
    obtain g where g: "isinstance e NodeException" "g \<in> set (depends self)" "failed_depend e = Some g"
      by blast
    from run_skip[OF e g(1) g(3), of config kvs H] quiet e g show ?thesis by blast
  qed
  from first second show ?thesis by blast
qed

text \<open>
  Witness for C3: one dependency \<open>a\<close> that failed.
\<close>

theorem run_skips_after_failed_dependency_witness:
  "run example_helpers dependent_node (PDict [(''q'', PStr ''x'')]) (Some quiet_config)
     (Some [(''a'', \<lparr>status = FAILURE, input = PNone, output = PStr ''down''\<rparr>)])
   = (Inr \<lparr>status = SKIP,
           input = PDict [(''q'', PStr ''x''), (''a'', PDict [(''output'', PStr ''down'')])],
           output = PDict [(''content'', PStr ''Dependency a: failed''), (''recoverable'', PNone)]\<rparr>,
      [Emitted (on_node_skip \<lparr>node = ''a'', option = None\<rparr>
         (PDict [(''q'', PStr ''x''), (''a'', PDict [(''output'', PStr ''down'')])]))])"
proof -
  define dr where "dr = [(''a'', \<lparr>status = FAILURE, input = PNone, output = PStr ''down''\<rparr>)]"
  have d: "\<lparr>node = ''a'', option = None\<rparr> \<in> set (depends dependent_node)"
    by (simp add: dependent_node_def plain_node_def)
  have r: "map_of dr (node \<lparr>node = ''a'', option = None\<rparr>)
             = Some \<lparr>status = FAILURE, input = PNone, output = PStr ''down''\<rparr>"
    by (simp add: dr_def)
  have s: "status \<lparr>status = FAILURE, input = PNone, output = PStr ''down''\<rparr> = FAILURE
         \<or> status \<lparr>status = FAILURE, input = PNone, output = PStr ''down''\<rparr> = SKIP"
    by simp
  have typed: "\<forall>g\<in>set (depends dependent_node). \<forall>e. validate_dependency_condition g dr = Inl e
                 \<longrightarrow> isinstance e NodeException"
    by (simp add: dependent_node_def plain_node_def dr_def validate_dependency_condition_def)
  have quiet: "\<forall>g m. returns_normally (callbacks (ensure_config (Some quiet_config))) (on_node_skip g m)"
    by (simp add: quiet_config_def quiet_handler_def returns_normally_def ensure_config_def)
  from run_skips_after_failed_dependency[OF d r s, of example_helpers "PDict []" "Some quiet_config"
      "[(''q'', PStr ''x'')]"] typed quiet
  obtain e g where
    e: "validate_depends dependent_node dr = Inl e"
    and g: "failed_depend e = Some g"
    and run: "run example_helpers dependent_node (PDict [(''q'', PStr ''x'')]) (Some quiet_config) (Some dr) =
      (Inr \<lparr>status = SKIP,
            input = PDict (dict_or [(''q'', PStr ''x'')]
                      (map (\<lambda>kr. (fst kr, to_tracing_depend_dict example_helpers (snd kr))) dr)),
            output = format_value example_helpers e None\<rparr>,
       replicate (length (callbacks (ensure_config (Some quiet_config))))
         (Emitted (on_node_skip g
            (PDict (dict_or [(''q'', PStr ''x'')]
               (map (\<lambda>kr. (fst kr, to_tracing_depend_dict example_helpers (snd kr))) dr))))))"
    by blast
  from e have e': "e = Exn NodeFailedException ''Dependency a: failed'' (Some \<lparr>node = ''a'', option = None\<rparr>)"
    by (simp add: validate_depends_def dependent_node_def plain_node_def dr_def
        validate_dependency_status_def)
  from run g show ?thesis
    unfolding e' dr_def
    by (simp add: example_helpers_def quiet_config_def ensure_config_def dict_or_def)
qed




section \<open>The result of a run\<close>

text \<open>
  C10. A \<open>FAILURE\<close> result carries the caller's \<open>input_data\<close> as it was passed. A
  \<open>SUCCESS\<close> result carries the input merged with the tracing view of the dependency
  results or, when an input transformer is configured, the transformation of the input
  merged with their dict view.
\<close>

theorem run_result_input:
  assumes "fst (run H self input_data config depends_result) = Inr res"
  shows "(status res = FAILURE \<longrightarrow> input res = input_data)
     \<and> (status res = SUCCESS \<longrightarrow>
          (\<exists>kvs. input_data = PDict kvs \<and>
             (if transformer_configured (input_transformer self)
              then transform_input H self
                     (PDict (dict_or kvs (map (\<lambda>kr. (fst kr, to_depend_dict H (snd kr)))
                                            (case depends_result of None \<Rightarrow> [] | Some d \<Rightarrow> d))))
                   = Inr (input res)
              else input res =
                     PDict (dict_or kvs (map (\<lambda>kr. (fst kr, to_tracing_depend_dict H (snd kr)))
                                           (case depends_result of None \<Rightarrow> [] | Some d \<Rightarrow> d))))))"
proof -
  define dr where "dr = (case depends_result of None \<Rightarrow> [] | Some d \<Rightarrow> d)"
  obtain kvs where kvs: "input_data = PDict kvs"
    using assms by (cases input_data) (simp_all add: run_def py_or_def Let_def)
  define ti where "ti = PDict (dict_or kvs (map (\<lambda>kr. (fst kr, to_tracing_depend_dict H (snd kr))) dr))"
  show ?thesis
  proof (cases "validate_depends self dr")
    case (Inl e)
    with assms kvs have "status res = SKIP"
      by (auto simp: run_def Let_def py_or_def dr_def split: if_splits option.splits prod.splits)
    then show ?thesis by simp
  next
    case (Inr u)
    show ?thesis
    proof (cases "run_body H self (ensure_config config) input_data ti dr []")
      case (Pair b tr)
      show ?thesis
      proof (cases b)
        case (Inl e)
        with Pair Inr assms kvs have "status res = FAILURE \<and> input res = input_data"
          by (auto simp: run_def Let_def py_or_def dr_def ti_def split: option.splits prod.splits)
        then show ?thesis by simp
      next
        case (Inr r)
        with Pair \<open>validate_depends self dr = Inr u\<close> assms kvs have "res = r"
          by (auto simp: run_def Let_def py_or_def dr_def ti_def split: option.splits prod.splits)
        with run_body_result[of H self "ensure_config config" input_data ti dr "[]" r tr] Pair Inr kvs
        show ?thesis by (auto simp: dr_def ti_def split: if_splits)
      qed
    qed
  qed
qed

text \<open>
  Witness for C10: the same input and dependency result, once with an \<open>execute\<close> that
  raises and once with one that returns.
\<close>

theorem run_result_input_witness:
  "fst (run example_helpers failing_dependent_node (PDict [(''q'', PStr ''x'')]) None
          (Some [(''a'', \<lparr>status = SUCCESS, input = PNone, output = PStr ''up''\<rparr>)]))
     = Inr \<lparr>status = FAILURE, input = PDict [(''q'', PStr ''x'')],
            output = PDict [(''content'', PStr ''boom''), (''recoverable'', PBool False)]\<rparr>
   \<and> fst (run example_helpers dependent_node (PDict [(''q'', PStr ''x'')]) None
          (Some [(''a'', \<lparr>status = SUCCESS, input = PNone, output = PStr ''up''\<rparr>)]))
     = Inr \<lparr>status = SUCCESS,
            input = PDict [(''q'', PStr ''x''), (''a'', PDict [(''output'', PStr ''up'')])],
            output = PDict [(''content'', PStr ''done'')]\<rparr>"
proof -
  have f: "fst (run example_helpers failing_dependent_node (PDict [(''q'', PStr ''x'')]) None
          (Some [(''a'', \<lparr>status = SUCCESS, input = PNone, output = PStr ''up''\<rparr>)]))
     = Inr \<lparr>status = FAILURE, input = PDict [(''q'', PStr ''x'')],
            output = PDict [(''content'', PStr ''boom''), (''recoverable'', PBool False)]\<rparr>"
    by (simp add: run_def run_body_def effective_input_def failing_dependent_node_def plain_node_def example_helpers_def
      ensure_config_def validate_depends_def validate_dependency_status_def
      validate_dependency_condition_def dict_or_def py_or_def transformer_configured_def
      run_on_node_start_def run_on_node_end_def run_on_node_error_def cache_wf_entity_def
      execute_with_retry_def run_on_node_execute_start_def run_on_node_execute_end_def
      run_on_node_execute_error_def execute_with_timeout_def
      failing_execute_def boom_def isinstance_def issubclass_def)
  have s: "fst (run example_helpers dependent_node (PDict [(''q'', PStr ''x'')]) None
          (Some [(''a'', \<lparr>status = SUCCESS, input = PNone, output = PStr ''up''\<rparr>)]))
     = Inr \<lparr>status = SUCCESS,
            input = PDict [(''q'', PStr ''x''), (''a'', PDict [(''output'', PStr ''up'')])],
            output = PDict [(''content'', PStr ''done'')]\<rparr>"
    by (simp add: run_def run_body_def effective_input_def dependent_node_def plain_node_def example_helpers_def
      ensure_config_def validate_depends_def validate_dependency_status_def
      validate_dependency_condition_def dict_or_def py_or_def transformer_configured_def
      run_on_node_start_def run_on_node_end_def cache_wf_entity_def execute_with_retry_def
      run_on_node_execute_start_def run_on_node_execute_end_def execute_with_timeout_def
      ok_execute_def transform_output_def transform_def)
  from run_result_input[OF f] run_result_input[OF s] f s show ?thesis by simp
qed

text \<open>
  An exception leaves the guarded block exactly when one of its stages raises it: the
  input transformation, the node-start hook, the cache gate around the retried
  execution, the output transformation, the node-end hook.
\<close>

lemma run_body_raises:
  assumes "effective_input H self input_data ti0 dr = Inl e
     \<or> (\<exists>ti tr1. effective_input H self input_data ti0 dr = Inr ti
           \<and> run_on_node_start (callbacks cfg) ti tr = (Some e, tr1))
     \<or> (\<exists>ti tr1 tr2. effective_input H self input_data ti0 dr = Inr ti
           \<and> run_on_node_start (callbacks cfg) ti tr = (None, tr1)
           \<and> cache_wf_entity (node_id self) (caching_enabled self) (cache cfg)
                 (\<lambda>inp. execute_with_retry self inp (Some cfg)) ti tr1 = (Inl e, tr2))
     \<or> (\<exists>ti tr1 tr2 out from_cache. effective_input H self input_data ti0 dr = Inr ti
           \<and> run_on_node_start (callbacks cfg) ti tr = (None, tr1)
           \<and> cache_wf_entity (node_id self) (caching_enabled self) (cache cfg)
                 (\<lambda>inp. execute_with_retry self inp (Some cfg)) ti tr1 = (Inr (out, from_cache), tr2)
           \<and> transform_output H self out = Inl e)
     \<or> (\<exists>ti tr1 tr2 out from_cache t_out tr3. effective_input H self input_data ti0 dr = Inr ti
           \<and> run_on_node_start (callbacks cfg) ti tr = (None, tr1)
           \<and> cache_wf_entity (node_id self) (caching_enabled self) (cache cfg)
                 (\<lambda>inp. execute_with_retry self inp (Some cfg)) ti tr1 = (Inr (out, from_cache), tr2)
           \<and> transform_output H self out = Inr t_out
           \<and> run_on_node_end (callbacks cfg) t_out from_cache tr2 = (Some e, tr3))"
  shows "fst (run_body H self cfg input_data ti0 dr tr) = Inl e"
  using assms by (auto simp: run_body_def)

lemma run_body_raises_only:
  assumes "fst (run_body H self cfg input_data ti0 dr tr) = Inl e"
  shows "effective_input H self input_data ti0 dr = Inl e
     \<or> (\<exists>ti tr1. effective_input H self input_data ti0 dr = Inr ti
           \<and> run_on_node_start (callbacks cfg) ti tr = (Some e, tr1))
     \<or> (\<exists>ti tr1 tr2. effective_input H self input_data ti0 dr = Inr ti
           \<and> run_on_node_start (callbacks cfg) ti tr = (None, tr1)
           \<and> cache_wf_entity (node_id self) (caching_enabled self) (cache cfg)
                 (\<lambda>inp. execute_with_retry self inp (Some cfg)) ti tr1 = (Inl e, tr2))
     \<or> (\<exists>ti tr1 tr2 out from_cache. effective_input H self input_data ti0 dr = Inr ti
           \<and> run_on_node_start (callbacks cfg) ti tr = (None, tr1)
           \<and> cache_wf_entity (node_id self) (caching_enabled self) (cache cfg)
                 (\<lambda>inp. execute_with_retry self inp (Some cfg)) ti tr1 = (Inr (out, from_cache), tr2)
           \<and> transform_output H self out = Inl e)
     \<or> (\<exists>ti tr1 tr2 out from_cache t_out tr3. effective_input H self input_data ti0 dr = Inr ti
           \<and> run_on_node_start (callbacks cfg) ti tr = (None, tr1)
           \<and> cache_wf_entity (node_id self) (caching_enabled self) (cache cfg)
                 (\<lambda>inp. execute_with_retry self inp (Some cfg)) ti tr1 = (Inr (out, from_cache), tr2)
           \<and> transform_output H self out = Inr t_out
           \<and> run_on_node_end (callbacks cfg) t_out from_cache tr2 = (Some e, tr3))"
  using assms
  by (auto simp: run_body_def split: sum.splits prod.splits option.splits)

text \<open>
  The cache gate raises what the lookup raises, and what the retried execution raises.
\<close>

lemma cache_wf_entity_lookup_raises:
  assumes "caching_enabled self" and "cache cfg = Some backend"
    and "cache_get backend (node_id self) ti = Inl e"
  shows "cache_wf_entity (node_id self) (caching_enabled self) (cache cfg) func ti tr = (Inl e, tr @ [CacheRead])"
  using assms by (simp add: cache_wf_entity_def)

lemma cache_wf_entity_execution_raises:
  assumes "\<not> caching_enabled self \<or> cache cfg = None"
    and "func ti tr = (Inl e, tr1)"
  shows "cache_wf_entity (node_id self) (caching_enabled self) (cache cfg) func ti tr = (Inl e, tr1)"
  using assms by (auto simp: cache_wf_entity_def)

text \<open>
  C1, as stated, fails: \<open>execute\<close> raises, the node-error hook is called inside the
  handler, and a handler that raises there is caught by nothing: the exception leaves
  \<open>run\<close> and no result is returned. So does the \<open>TypeError\<close> of the merge that stands
  before the first \<open>try\<close>, when the input is not a mapping.
\<close>

theorem error_hook_raises_counterexample:
  "run example_helpers plain_node (PDict []) (Some noisy_config) None
     = (Inl observer_error,
        [Emitted (on_node_start (PDict [])), Emitted (on_node_execute_start (PDict [])), Executed 0,
         Emitted (on_node_execute_error boom), Emitted (on_node_error boom)])
   \<and> run example_helpers plain_node (PStr ''q'') None None
     = (Inl (Exn TypeError ''unsupported operand type(s) for |'' None), [])"
  by (simp add: run_def run_body_def effective_input_def plain_node_def example_helpers_def noisy_config_def
      error_raising_handler_def
      ensure_config_def validate_depends_def dict_or_def py_or_def transformer_configured_def
      run_on_node_start_def run_on_node_end_def run_on_node_error_def cache_wf_entity_def
      execute_with_retry_def run_on_node_execute_start_def run_on_node_execute_end_def
      run_on_node_execute_error_def execute_with_timeout_def
      failing_execute_def)

text \<open>
  C1, amended. For a mapping input whose dependencies validate, an exception raised by
  the input transformation, by the node-start hook, by the cache gate or the retried
  execution inside it (its execute hooks included), by the output transformation or by
  the node-end hook is passed to the node-error hook and, when every handler returns
  from it, \<open>run\<close> returns the \<open>FAILURE\<close> result with the caller's input and the
  formatted error, whose recoverable flag is
  \<open>isinstance(e, RecoverableAgentException)\<close>; the trace ends with the error hook.
\<close>

theorem run_reifies_failure:
  fixes depends_result :: "depends_result option" and config :: "RunnableConfig option"
    and H :: helpers and kvs :: "(string \<times> pyval) list"
  defines "dr \<equiv> (case depends_result of None \<Rightarrow> [] | Some d \<Rightarrow> d)"
    and "cfg \<equiv> ensure_config config"
  defines "merged \<equiv> PDict (dict_or kvs (map (\<lambda>kr. (fst kr, to_tracing_depend_dict H (snd kr))) dr))"
  assumes validated: "validate_depends self dr = Inr ()"
    and raised:
      "effective_input H self (PDict kvs) merged dr = Inl e
       \<or> (\<exists>ti tr1. effective_input H self (PDict kvs) merged dr = Inr ti
             \<and> run_on_node_start (callbacks cfg) ti [] = (Some e, tr1))
       \<or> (\<exists>ti tr1 tr2. effective_input H self (PDict kvs) merged dr = Inr ti
             \<and> run_on_node_start (callbacks cfg) ti [] = (None, tr1)
             \<and> cache_wf_entity (node_id self) (caching_enabled self) (cache cfg)
                   (\<lambda>inp. execute_with_retry self inp (Some cfg)) ti tr1 = (Inl e, tr2))
       \<or> (\<exists>ti tr1 tr2 out from_cache. effective_input H self (PDict kvs) merged dr = Inr ti
             \<and> run_on_node_start (callbacks cfg) ti [] = (None, tr1)
             \<and> cache_wf_entity (node_id self) (caching_enabled self) (cache cfg)
                   (\<lambda>inp. execute_with_retry self inp (Some cfg)) ti tr1 = (Inr (out, from_cache), tr2)
             \<and> transform_output H self out = Inl e)
       \<or> (\<exists>ti tr1 tr2 out from_cache t_out tr3. effective_input H self (PDict kvs) merged dr = Inr ti
             \<and> run_on_node_start (callbacks cfg) ti [] = (None, tr1)
             \<and> cache_wf_entity (node_id self) (caching_enabled self) (cache cfg)
                   (\<lambda>inp. execute_with_retry self inp (Some cfg)) ti tr1 = (Inr (out, from_cache), tr2)
             \<and> transform_output H self out = Inr t_out
             \<and> run_on_node_end (callbacks cfg) t_out from_cache tr2 = (Some e, tr3))"
    and hook: "returns_normally (callbacks cfg) (on_node_error e)"
  shows "fst (run H self (PDict kvs) config depends_result) =
           Inr \<lparr>status = FAILURE, input = PDict kvs,
                output = format_value H e (Some (isinstance e RecoverableAgentException))\<rparr>
       \<and> snd (run H self (PDict kvs) config depends_result) =
           snd (run_body H self cfg (PDict kvs) merged dr [])
             @ replicate (length (callbacks cfg)) (Emitted (on_node_error e))"
proof -
  from run_body_raises[OF raised] have b: "fst (run_body H self cfg (PDict kvs) merged dr []) = Inl e" .
  obtain tr where tr: "run_body H self cfg (PDict kvs) merged dr [] = (Inl e, tr)"
    using b by (cases "run_body H self cfg (PDict kvs) merged dr []") simp
  show ?thesis
    using validated tr hook
    by (simp add: run_def Let_def py_or_def run_on_node_error_def emit_returns
        dr_def[symmetric] cfg_def[symmetric] merged_def[symmetric])
qed

text \<open>
  Witness for C1: an \<open>execute\<close> that raises a plain error (flag false) and one that raises
  a recoverable agent error (flag true).
\<close>

theorem run_reifies_failure_witness:
  "run example_helpers plain_node (PDict [(''q'', PStr ''x'')]) (Some quiet_config) None
     = (Inr \<lparr>status = FAILURE, input = PDict [(''q'', PStr ''x'')],
             output = PDict [(''content'', PStr ''boom''), (''recoverable'', PBool False)]\<rparr>,
        [Emitted (on_node_start (PDict [(''q'', PStr ''x'')])),
         Emitted (on_node_execute_start (PDict [(''q'', PStr ''x'')])), Executed 0,
         Emitted (on_node_execute_error boom), Emitted (on_node_error boom)])
   \<and> run example_helpers recoverable_node (PDict [(''q'', PStr ''x'')]) (Some quiet_config) None
     = (Inr \<lparr>status = FAILURE, input = PDict [(''q'', PStr ''x'')],
             output = PDict [(''content'', PStr ''rate limited''), (''recoverable'', PBool True)]\<rparr>,
        [Emitted (on_node_start (PDict [(''q'', PStr ''x'')])),
         Emitted (on_node_execute_start (PDict [(''q'', PStr ''x'')])), Executed 0,
         Emitted (on_node_execute_error tool_failure), Emitted (on_node_error tool_failure)])"
proof -
  define inp where "inp = PDict [(''q'', PStr ''x'')]"
  define cfg where "cfg = ensure_config (Some quiet_config)"
  have cfg: "cfg = quiet_config" by (simp add: cfg_def ensure_config_def)
  have v1: "validate_depends plain_node (case None of None \<Rightarrow> [] | Some d \<Rightarrow> d) = Inr ()"
    by (simp add: validate_depends_def plain_node_def)
  have v2: "validate_depends recoverable_node (case None of None \<Rightarrow> [] | Some d \<Rightarrow> d) = Inr ()"
    by (simp add: validate_depends_def plain_node_def recoverable_node_def)
  have i1: "effective_input example_helpers plain_node inp inp [] = Inr inp"
    by (simp add: effective_input_def transformer_configured_def plain_node_def)
  have i2: "effective_input example_helpers recoverable_node inp inp [] = Inr inp"
    by (simp add: effective_input_def transformer_configured_def plain_node_def recoverable_node_def)
  have s: "run_on_node_start (callbacks cfg) inp [] = (None, [Emitted (on_node_start inp)])"
    by (simp add: cfg run_on_node_start_def quiet_config_def quiet_handler_def)
  have c1: "cache_wf_entity (node_id plain_node) (caching_enabled plain_node) (cache cfg)
                   (\<lambda>inp. execute_with_retry plain_node inp (Some cfg)) inp [Emitted (on_node_start inp)]
     = (Inl boom, [Emitted (on_node_start inp), Emitted (on_node_execute_start inp), Executed 0,
                   Emitted (on_node_execute_error boom)])"
    by (simp add: cfg plain_node_def quiet_config_def quiet_handler_def ensure_config_def
        cache_wf_entity_def execute_with_retry_def run_on_node_execute_start_def
        run_on_node_execute_error_def execute_with_timeout_def failing_execute_def)
  have c2: "cache_wf_entity (node_id recoverable_node) (caching_enabled recoverable_node) (cache cfg)
                   (\<lambda>inp. execute_with_retry recoverable_node inp (Some cfg)) inp [Emitted (on_node_start inp)]
     = (Inl tool_failure, [Emitted (on_node_start inp), Emitted (on_node_execute_start inp), Executed 0,
                   Emitted (on_node_execute_error tool_failure)])"
    by (simp add: cfg plain_node_def recoverable_node_def quiet_config_def quiet_handler_def
        ensure_config_def cache_wf_entity_def execute_with_retry_def run_on_node_execute_start_def
        run_on_node_execute_error_def execute_with_timeout_def recoverable_execute_def)
  have q: "\<And>e. returns_normally (callbacks cfg) (on_node_error e)"
    by (simp add: cfg quiet_config_def quiet_handler_def returns_normally_def)
  have m: "PDict (dict_or [(''q'', PStr ''x'')]
             (map (\<lambda>kr. (fst kr, to_tracing_depend_dict example_helpers (snd kr)))
                (case None of None \<Rightarrow> [] | Some d \<Rightarrow> d))) = inp"
    by (simp add: inp_def dict_or_def)
  have b1: "snd (run_body example_helpers plain_node cfg inp inp [] [])
     = [Emitted (on_node_start inp), Emitted (on_node_execute_start inp), Executed 0,
        Emitted (on_node_execute_error boom)]"
    by (simp add: run_body_def i1 s c1)
  have b2: "snd (run_body example_helpers recoverable_node cfg inp inp [] [])
     = [Emitted (on_node_start inp), Emitted (on_node_execute_start inp), Executed 0,
        Emitted (on_node_execute_error tool_failure)]"
    by (simp add: run_body_def i2 s c2)
  have r1: "fst (run example_helpers plain_node inp (Some quiet_config) None) =
           Inr \<lparr>status = FAILURE, input = inp,
                output = format_value example_helpers boom (Some (isinstance boom RecoverableAgentException))\<rparr>
       \<and> snd (run example_helpers plain_node inp (Some quiet_config) None) =
           snd (run_body example_helpers plain_node cfg inp inp [] [])
             @ replicate (length (callbacks cfg)) (Emitted (on_node_error boom))"
    using run_reifies_failure[where self = plain_node and depends_result = None
        and kvs = "[(''q'', PStr ''x'')]" and H = example_helpers and e = boom
        and config = "Some quiet_config"]
      v1 i1 s c1 q
    unfolding m cfg_def[symmetric] inp_def[symmetric] by auto
  have r2: "fst (run example_helpers recoverable_node inp (Some quiet_config) None) =
           Inr \<lparr>status = FAILURE, input = inp,
                output = format_value example_helpers tool_failure
                           (Some (isinstance tool_failure RecoverableAgentException))\<rparr>
       \<and> snd (run example_helpers recoverable_node inp (Some quiet_config) None) =
           snd (run_body example_helpers recoverable_node cfg inp inp [] [])
             @ replicate (length (callbacks cfg)) (Emitted (on_node_error tool_failure))"
    using run_reifies_failure[where self = recoverable_node and depends_result = None
        and kvs = "[(''q'', PStr ''x'')]" and H = example_helpers and e = tool_failure
        and config = "Some quiet_config"]
      v2 i2 s c2 q
    unfolding m cfg_def[symmetric] inp_def[symmetric] by auto
  have f: "format_value example_helpers boom (Some (isinstance boom RecoverableAgentException))
             = PDict [(''content'', PStr ''boom''), (''recoverable'', PBool False)]"
    "format_value example_helpers tool_failure (Some (isinstance tool_failure RecoverableAgentException))
             = PDict [(''content'', PStr ''rate limited''), (''recoverable'', PBool True)]"
    by (simp_all add: example_helpers_def boom_def tool_failure_def isinstance_def issubclass_def)
  have l: "length (callbacks cfg) = 1" by (simp add: cfg quiet_config_def)
  from r1 r2 show ?thesis
    unfolding b1 b2 f l inp_def[symmetric]
    by (simp add: prod_eq_iff)
qed

section \<open>The reasoning loop: stored steps\<close>

lemma model_calls_append: "model_calls (xs @ ys) = model_calls xs @ model_calls ys"
  by (induction xs rule: model_calls.induct) simp_all


lemma emit_model_calls: "emit cbs ev tr = (r, tr') \<Longrightarrow> model_calls tr' = model_calls tr"
  by (induction cbs arbitrary: tr) (auto simp: model_calls_append split: option.splits)

lemma tracing_intermediate_keys:
  "step_keys (tracing_intermediate i p g st) =
     (if i \<in> set (step_keys st) then step_keys st else step_keys st @ [i])"
  by (simp add: step_keys_def tracing_intermediate_def update_keys)

lemma tracing_intermediate_rest:
  "effects (tracing_intermediate i p g st) = effects st"
  "previous_responses (tracing_intermediate i p g st) = previous_responses st"
  "i \<in> set (step_keys (tracing_intermediate i p g st))"
  "map_of (intermediate_steps (tracing_intermediate i p g st)) i \<noteq> None"
  by (simp_all add: tracing_intermediate_def step_keys_def update_keys update_conv')

lemma update_present_keys:
  "map_of al k = Some v0 \<Longrightarrow> map fst (AList.update k v al) = map fst al"
  by (simp add: update_keys) (metis map_of_eq_None_iff option.distinct(1) image_set)

lemma tracing_final_keeps:
  assumes "tracing_final self cfg i a st = (r, st')"
  shows "step_keys st' = step_keys st \<and> previous_responses st' = previous_responses st
       \<and> model_calls (effects st') = model_calls (effects st)"
  using assms
  by (auto simp: tracing_final_def step_keys_def Let_def run_on_node_execute_stream_def
      update_present_keys emit_model_calls split: option.splits if_splits prod.splits)

lemma finish_keeps:
  assumes "finish self cfg i a st = (r, st')"
  shows "step_keys st' = step_keys st \<and> previous_responses st' = previous_responses st
       \<and> model_calls (effects st') = model_calls (effects st)"
  using assms tracing_final_keeps
  by (fastforce simp: finish_def split: option.splits prod.splits)

lemma case_DEFAULT_keys:
  assumes "case_DEFAULT self C cfg i p out st = (r, st')"
  shows "step_keys st' = step_keys st \<or> (i \<notin> set (step_keys st) \<and> step_keys st' = step_keys st @ [i])"
  using assms
  by (auto simp: case_DEFAULT_def Let_def tracing_intermediate_keys
      split: option.splits if_splits sum.splits prod.splits dest!: finish_keeps)

lemma case_XML_keys:
  assumes "case_XML self C cfg i p out st = (r, st')"
  shows "step_keys st' = step_keys st \<or> (i \<notin> set (step_keys st) \<and> step_keys st' = step_keys st @ [i])"
  using assms
  by (auto simp: case_XML_def Let_def tracing_intermediate_keys
      split: option.splits if_splits sum.splits prod.splits dest!: finish_keeps)

lemma case_FUNCTION_CALLING_keys:
  assumes "case_FUNCTION_CALLING self C cfg i p out st = (r, st')"
  shows "step_keys st' = step_keys st \<or> (i \<notin> set (step_keys st) \<and> step_keys st' = step_keys st @ [i])"
  using assms
  by (auto simp: case_FUNCTION_CALLING_def Let_def tracing_intermediate_keys
      split: option.splits if_splits sum.splits prod.splits list.splits dest!: finish_keeps)

lemma case_STRUCTURED_OUTPUT_keys:
  assumes "case_STRUCTURED_OUTPUT self C cfg i p out st = (r, st')"
  shows "step_keys st' = step_keys st \<or> (i \<notin> set (step_keys st) \<and> step_keys st' = step_keys st @ [i])"
  using assms
  by (auto simp: case_STRUCTURED_OUTPUT_def Let_def tracing_intermediate_keys
      split: option.splits if_splits sum.splits prod.splits dest!: finish_keeps)

lemma act_keys:
  assumes "act self C cfg i a ai g st = (r, st')"
  shows "step_keys st' = step_keys st"
  using assms
  by (auto simp: act_def Let_def step_keys_def update_present_keys
      split: option.splits if_splits sum.splits prod.splits)

lemma try_block_keys:
  assumes "try_block self C cfg i p res st = (f, st')"
  shows "step_keys st' = step_keys st \<or> (i \<notin> set (step_keys st) \<and> step_keys st' = step_keys st @ [i])"
proof (cases "llm_status res \<noteq> SUCCESS")
  case True
  with assms show ?thesis
    by (auto simp: try_block_def step_keys_def split: option.splits)
next
  case False
  obtain r st1 where m: "(case inference_mode self of
                 DEFAULT \<Rightarrow> case_DEFAULT self C cfg i p (llm_output res) st
               | FUNCTION_CALLING \<Rightarrow> case_FUNCTION_CALLING self C cfg i p (llm_output res) st
               | STRUCTURED_OUTPUT \<Rightarrow> case_STRUCTURED_OUTPUT self C cfg i p (llm_output res) st
               | XML \<Rightarrow> case_XML self C cfg i p (llm_output res) st) = (r, st1)"
    by (cases "(case inference_mode self of
                 DEFAULT \<Rightarrow> case_DEFAULT self C cfg i p (llm_output res) st
               | FUNCTION_CALLING \<Rightarrow> case_FUNCTION_CALLING self C cfg i p (llm_output res) st
               | STRUCTURED_OUTPUT \<Rightarrow> case_STRUCTURED_OUTPUT self C cfg i p (llm_output res) st
               | XML \<Rightarrow> case_XML self C cfg i p (llm_output res) st)") blast
  have k1: "step_keys st1 = step_keys st \<or> (i \<notin> set (step_keys st) \<and> step_keys st1 = step_keys st @ [i])"
  proof (cases "inference_mode self")
    case DEFAULT
    with m case_DEFAULT_keys[of self C cfg i p "llm_output res" st r st1] show ?thesis by simp
  next
    case XML
    with m case_XML_keys[of self C cfg i p "llm_output res" st r st1] show ?thesis by simp
  next
    case FUNCTION_CALLING
    with m case_FUNCTION_CALLING_keys[of self C cfg i p "llm_output res" st r st1] show ?thesis by simp
  next
    case STRUCTURED_OUTPUT
    with m case_STRUCTURED_OUTPUT_keys[of self C cfg i p "llm_output res" st r st1] show ?thesis by simp
  qed
  have "step_keys st' = step_keys st1"
    using assms False m act_keys
    by (auto simp: try_block_def split: sum.splits parsed.splits prod.splits)
  with k1 show ?thesis by simp
qed

lemma loop_body_keys:
  assumes "loop_body self C cfg i st = (f, st')"
  shows "step_keys st' = step_keys st \<or> (i \<notin> set (step_keys st) \<and> step_keys st' = step_keys st @ [i])"
proof -
  define p where "p = generate_prompt C (join [CHR 0x0A] (previous_responses st))"
  define st0 where "st0 = st\<lparr>effects := effects st @ [ModelCalled i p]\<rparr>"
  obtain f1 st1 where t: "try_block self C cfg i p (llm_run C i p) st0 = (f1, st1)"
    by (cases "try_block self C cfg i p (llm_run C i p) st0") blast
  have k0: "step_keys st0 = step_keys st" by (simp add: st0_def step_keys_def)
  have "step_keys st' = step_keys st1"
    using assms t
    by (auto simp: loop_body_def Let_def p_def st0_def step_keys_def split: flow.splits if_splits)
  with try_block_keys[OF t] k0 show ?thesis by simp
qed

lemma loop_keys_sorted:
  assumes "loop self C cfg is st = (r, st')"
    and "sorted_wrt (<) (step_keys st @ is)"
  shows "sorted_wrt (<) (step_keys st') \<and> set (step_keys st') \<subseteq> set (step_keys st) \<union> set is"
  using assms
proof (induction "is" arbitrary: st)
  case Nil
  then show ?case by simp
next
  case (Cons i "is")
  obtain f st1 where b: "loop_body self C cfg i st = (f, st1)"
    by (cases "loop_body self C cfg i st") blast
  from loop_body_keys[OF b]
  have k: "step_keys st1 = step_keys st \<or> step_keys st1 = step_keys st @ [i]" by blast
  have s1: "sorted_wrt (<) (step_keys st1)" "set (step_keys st1) \<subseteq> set (step_keys st) \<union> set (i # is)"
    using k Cons.prems(2) by (auto simp: sorted_wrt_append)
  have s2: "sorted_wrt (<) (step_keys st1 @ is)"
    using k Cons.prems(2) by (auto simp: sorted_wrt_append)
  show ?case
  proof (cases f)
    case Continue
    with b Cons.prems(1) have "loop self C cfg is st1 = (r, st')" by simp
    from Cons.IH[OF this s2] s1 show ?thesis by auto
  next
    case (Return a)
    with b Cons.prems(1) have "st' = st1" by simp
    with s1 show ?thesis by simp
  next
    case (Raise e)
    with b Cons.prems(1) have "st' = st1" by simp
    with s1 show ?thesis by simp
  qed
qed

lemma loop_body_unfold:
  "loop_body self C cfg i st =
      (case try_block self C cfg i (generate_prompt C (join [CHR 0x0A] (previous_responses st)))
              (llm_run C i (generate_prompt C (join [CHR 0x0A] (previous_responses st))))
              (st\<lparr>effects := effects st @ [ModelCalled i (generate_prompt C (join [CHR 0x0A] (previous_responses st)))]\<rparr>) of
           (Raise e, st1) \<Rightarrow>
             if isinstance e ActionParsingException
             then (Continue, st1\<lparr>previous_responses :=
                                   previous_responses st1 @ [class_name (exn_cls e) @ '': '' @ exn_msg e]\<rparr>)
             else (Raise e, st1)
         | (Continue, st1) \<Rightarrow> (Continue, st1)
         | (Return answer, st1) \<Rightarrow> (Return answer, st1))"
  by (simp add: loop_body_def Let_def)

lemma mode_decodable_keys:
  assumes "decodable self C out"
    and "(case inference_mode self of
                 DEFAULT \<Rightarrow> case_DEFAULT self C cfg i p out st
               | FUNCTION_CALLING \<Rightarrow> case_FUNCTION_CALLING self C cfg i p out st
               | STRUCTURED_OUTPUT \<Rightarrow> case_STRUCTURED_OUTPUT self C cfg i p out st
               | XML \<Rightarrow> case_XML self C cfg i p out st) = (r, st')"
  shows "i \<in> set (step_keys st')"
proof (cases "inference_mode self")
  case DEFAULT
  with assms show ?thesis
    by (auto simp: decodable_def case_DEFAULT_def Let_def tracing_intermediate_rest
        split: option.splits sum.splits if_splits prod.splits dest!: finish_keeps)
next
  case XML
  with assms show ?thesis
    by (auto simp: decodable_def case_XML_def Let_def tracing_intermediate_rest
        split: option.splits sum.splits if_splits prod.splits dest!: finish_keeps)
next
  case FUNCTION_CALLING
  with assms(1) obtain call calls j where
    "tool_calls out = Some (call # calls)" "json_loads C (arguments call) = Some j"
    by (auto simp: decodable_def split: option.splits list.splits)
  with FUNCTION_CALLING assms(2) show ?thesis
    by (auto simp: case_FUNCTION_CALLING_def Let_def tracing_intermediate_rest
        split: sum.splits if_splits dest!: finish_keeps)
next
  case STRUCTURED_OUTPUT
  with assms(1) obtain t j a ai where
    "content out = Some t" "json_loads C t = Some j" "getitem j ''action'' = Inr a"
    "getitem j ''action_input'' = Inr ai"
    by (auto simp: decodable_def split: option.splits sum.splits)
  with STRUCTURED_OUTPUT assms(2) show ?thesis
    by (auto simp: case_STRUCTURED_OUTPUT_def Let_def tracing_intermediate_rest
        split: if_splits dest!: finish_keeps)
qed

lemma loop_body_model_failure:
  assumes "llm_status (llm_run C i (generate_prompt C (join [CHR 0x0A] (previous_responses st)))) \<noteq> SUCCESS"
  shows "intermediate_steps (snd (loop_body self C cfg i st)) = intermediate_steps st"
  using assms
  by (auto simp: loop_body_unfold try_block_def isinstance_def issubclass_def split: option.splits)

lemma loop_body_decodable:
  assumes ok: "llm_status (llm_run C i (generate_prompt C (join [CHR 0x0A] (previous_responses st)))) = SUCCESS"
    and dec: "decodable self C (llm_output (llm_run C i (generate_prompt C (join [CHR 0x0A] (previous_responses st)))))"
  shows "i \<in> set (step_keys (snd (loop_body self C cfg i st)))"
proof -
  define p where "p = generate_prompt C (join [CHR 0x0A] (previous_responses st))"
  define st0 where "st0 = st\<lparr>effects := effects st @ [ModelCalled i p]\<rparr>"
  obtain r st1 where m: "(case inference_mode self of
                 DEFAULT \<Rightarrow> case_DEFAULT self C cfg i p (llm_output (llm_run C i p)) st0
               | FUNCTION_CALLING \<Rightarrow> case_FUNCTION_CALLING self C cfg i p (llm_output (llm_run C i p)) st0
               | STRUCTURED_OUTPUT \<Rightarrow> case_STRUCTURED_OUTPUT self C cfg i p (llm_output (llm_run C i p)) st0
               | XML \<Rightarrow> case_XML self C cfg i p (llm_output (llm_run C i p)) st0) = (r, st1)"
    by (cases "(case inference_mode self of
                 DEFAULT \<Rightarrow> case_DEFAULT self C cfg i p (llm_output (llm_run C i p)) st0
               | FUNCTION_CALLING \<Rightarrow> case_FUNCTION_CALLING self C cfg i p (llm_output (llm_run C i p)) st0
               | STRUCTURED_OUTPUT \<Rightarrow> case_STRUCTURED_OUTPUT self C cfg i p (llm_output (llm_run C i p)) st0
               | XML \<Rightarrow> case_XML self C cfg i p (llm_output (llm_run C i p)) st0)") blast
  from mode_decodable_keys[OF dec[folded p_def] m] have k1: "i \<in> set (step_keys st1)" .
  obtain f st2 where t: "try_block self C cfg i p (llm_run C i p) st0 = (f, st2)"
    by (cases "try_block self C cfg i p (llm_run C i p) st0") blast
  have "step_keys st2 = step_keys st1"
    using t ok[folded p_def] m act_keys
    by (auto simp: try_block_def split: sum.splits parsed.splits prod.splits)
  with k1 have k2: "i \<in> set (step_keys st2)" by simp
  have "step_keys (snd (loop_body self C cfg i st)) = step_keys st2"
    using t
    by (auto simp: loop_body_unfold p_def[symmetric] st0_def[symmetric] step_keys_def
        split: flow.splits if_splits)
  with k2 show ?thesis by simp
qed

text \<open>
  C8, as stated, fails: the model call of iteration \<open>0\<close> fails, the loop appends the
  error text to the context and continues without storing a step; iteration \<open>1\<close>
  answers. The only stored index is \<open>1\<close>.
\<close>

theorem model_failure_leaves_no_step_counterexample:
  "run_agent flaky_agent flaky_collaborators quiet_config [] =
     (Inr (PStr ''42''),
      \<lparr>previous_responses = [''timeout''],
       intermediate_steps =
         [(1, \<lparr>prompt = ''User request: q. timeout'',
               model_observation = \<lparr>initial = Some ''Thought: known. Answer: 42 '', tool_using = None,
                                    tool_input = None, tool_output = None, updated = None\<rparr>,
               final_answer = Some (PStr ''42'')\<rparr>)],
       effects = [ModelCalled 0 ''User request: q. '', ModelCalled 1 ''User request: q. timeout'']\<rparr>)"
proof -
  have u: "[0 ..< 2] = [0, 1::nat]" by code_simp
  show ?thesis
    by (simp add: run_agent_def flaky_agent_def flaky_collaborators_def quiet_config_def u
        loop_body_unfold try_block_def case_DEFAULT_def finish_def tracing_final_def
        tracing_intermediate_def extract_final_answer_def startswith_def strip_def is_space_def
        Let_def)
qed

text \<open>
  C8, amended. In a run that starts with no steps, the stored indices are strictly
  increasing (so unique) and below \<open>max_loops\<close>. An iteration whose model call does not
  succeed stores no step; an iteration whose model call succeeds with an output the mode
  can decode stores a step under its \<open>loop_num\<close>, whatever follows (parse failure, tool
  dispatch, termination).
\<close>

theorem steps_recorded_when_decoded:
  "sorted_wrt (<) (step_keys (snd (run_agent self C config [])))
   \<and> set (step_keys (snd (run_agent self C config []))) \<subseteq> {0 ..< max_loops self}
   \<and> (llm_status (llm_run C i (generate_prompt C (join [CHR 0x0A] (previous_responses st)))) \<noteq> SUCCESS
        \<longrightarrow> intermediate_steps (snd (loop_body self C config i st)) = intermediate_steps st)
   \<and> (llm_status (llm_run C i (generate_prompt C (join [CHR 0x0A] (previous_responses st)))) = SUCCESS
        \<and> decodable self C (llm_output (llm_run C i (generate_prompt C (join [CHR 0x0A] (previous_responses st)))))
        \<longrightarrow> i \<in> set (step_keys (snd (loop_body self C config i st))))"
proof -
  obtain r st' where l: "loop self C config [0 ..< max_loops self]
      \<lparr>previous_responses = [], intermediate_steps = [], effects = []\<rparr> = (r, st')"
    by (cases "loop self C config [0 ..< max_loops self]
      \<lparr>previous_responses = [], intermediate_steps = [], effects = []\<rparr>") blast
  have "sorted_wrt (<) (step_keys \<lparr>previous_responses = [], intermediate_steps = [], effects = []\<rparr> @ [0 ..< max_loops self])"
    by (simp add: step_keys_def sorted_wrt_upt)
  from loop_keys_sorted[OF l this]
  have "sorted_wrt (<) (step_keys st')" "set (step_keys st') \<subseteq> {0 ..< max_loops self}"
    by (auto simp: step_keys_def)
  with l have a: "sorted_wrt (<) (step_keys (snd (run_agent self C config [])))"
    "set (step_keys (snd (run_agent self C config []))) \<subseteq> {0 ..< max_loops self}"
    by (simp_all add: run_agent_def)
  from a loop_body_model_failure[of C i st self config] loop_body_decodable[of C i st self config]
  show ?thesis by blast
qed

text \<open>
  Witness for C8: the failing iteration \<open>0\<close> stores nothing, the decodable iteration
  \<open>1\<close> stores its step.
\<close>

theorem steps_recorded_when_decoded_witness:
  "llm_status (llm_run flaky_collaborators 0
      (generate_prompt flaky_collaborators (join [CHR 0x0A] (previous_responses fresh_state)))) \<noteq> SUCCESS
   \<and> intermediate_steps (snd (loop_body flaky_agent flaky_collaborators quiet_config 0 fresh_state)) = []
   \<and> decodable flaky_agent flaky_collaborators (llm_output (llm_run flaky_collaborators 1
        (generate_prompt flaky_collaborators (join [CHR 0x0A] (previous_responses fresh_state)))))
   \<and> 1 \<in> set (step_keys (snd (loop_body flaky_agent flaky_collaborators quiet_config 1 fresh_state)))
   \<and> sorted_wrt (<) (step_keys (snd (run_agent flaky_agent flaky_collaborators quiet_config [])))"
proof -
  have f: "llm_status (llm_run flaky_collaborators 0
      (generate_prompt flaky_collaborators (join [CHR 0x0A] (previous_responses fresh_state)))) \<noteq> SUCCESS"
    by (simp add: flaky_collaborators_def)
  have ok: "llm_status (llm_run flaky_collaborators 1
      (generate_prompt flaky_collaborators (join [CHR 0x0A] (previous_responses fresh_state)))) = SUCCESS"
    by (simp add: flaky_collaborators_def)
  have d: "decodable flaky_agent flaky_collaborators (llm_output (llm_run flaky_collaborators 1
        (generate_prompt flaky_collaborators (join [CHR 0x0A] (previous_responses fresh_state)))))"
    by (simp add: decodable_def flaky_agent_def flaky_collaborators_def)
  from steps_recorded_when_decoded[of flaky_agent flaky_collaborators quiet_config 0 fresh_state] f
  have a: "intermediate_steps (snd (loop_body flaky_agent flaky_collaborators quiet_config 0 fresh_state)) = []"
    "sorted_wrt (<) (step_keys (snd (run_agent flaky_agent flaky_collaborators quiet_config [])))"
    by (simp_all add: fresh_state_def)
  from steps_recorded_when_decoded[of flaky_agent flaky_collaborators quiet_config 1 fresh_state] ok d
  have b: "1 \<in> set (step_keys (snd (loop_body flaky_agent flaky_collaborators quiet_config 1 fresh_state)))"
    by blast
  from f a d b show ?thesis by simp
qed

section \<open>The reasoning loop: exhaustion\<close>










section \<open>The reasoning loop: termination and absorbed errors\<close>

lemma startswith_iff: "startswith s t \<longleftrightarrow> (\<exists>r. s = t @ r)"
  unfolding startswith_def
  by (metis append_eq_conv_conj append_take_drop_id)

lemma contains_after_first: "contains s t \<Longrightarrow> after_first s t \<noteq> None"
  by (induction s) auto

lemma after_first_Some:
  "after_first s t = Some rest \<Longrightarrow>
     \<exists>pre. s = pre @ t @ rest \<and> (\<forall>pre' rest'. s = pre' @ t @ rest' \<longrightarrow> length pre \<le> length pre')"
proof (induction s)
  case Nil
  then show ?case by (auto split: if_splits)
next
  case (Cons c s)
  show ?case
  proof (cases "startswith (c # s) t")
    case True
    with Cons.prems have "rest = drop (length t) (c # s)" by simp
    moreover from True have "take (length t) (c # s) = t" by (simp add: startswith_def)
    ultimately have "c # s = [] @ t @ rest" by (metis append_Nil append_take_drop_id)
    then show ?thesis by (metis length_0_conv le0 list.size(3))
  next
    case False
    with Cons.prems have "after_first s t = Some rest" by simp
    from Cons.IH[OF this] obtain pre where pre: "s = pre @ t @ rest"
      "\<forall>pre' rest'. s = pre' @ t @ rest' \<longrightarrow> length pre \<le> length pre'" by blast
    have "length (c # pre) \<le> length pre'" if "c # s = pre' @ t @ rest'" for pre' rest'
    proof (cases pre')
      case Nil
      with that have "startswith (c # s) t" by (simp add: startswith_iff)
      with False show ?thesis by simp
    next
      case (Cons c' pre'')
      with that have "s = pre'' @ t @ rest'" by simp
      with pre(2) Cons show ?thesis by simp
    qed
    with pre(1) show ?thesis by (metis append_Cons)
  qed
qed

lemma finish_returns:
  assumes quiet: "streaming_enabled self \<longrightarrow> (\<forall>step. returns_normally (callbacks cfg) (on_node_execute_stream step))"
    and present: "map_of (intermediate_steps st) i = Some step"
  shows "finish self cfg i a st =
     (Inr (FinalAnswer a),
      st\<lparr>intermediate_steps := AList.update i (step\<lparr>final_answer := Some a\<rparr>) (intermediate_steps st),
         effects := effects st @
           (if streaming_enabled self
            then replicate (length (callbacks cfg)) (Emitted (on_node_execute_stream (step\<lparr>final_answer := Some a\<rparr>)))
            else [])\<rparr>)"
proof (cases "streaming_enabled self")
  case False
  with present show ?thesis by (simp add: finish_def tracing_final_def Let_def)
next
  case True
  with quiet have q: "\<And>step. returns_normally (callbacks cfg) (on_node_execute_stream step)" by blast
  from True present show ?thesis
    by (simp add: finish_def tracing_final_def Let_def run_on_node_execute_stream_def emit_returns[OF q])
qed

text \<open>
  C6. In \<open>DEFAULT\<close> mode, at any loop index, a successful model output that contains
  \<open>Answer:\<close> ends the loop in that iteration, whatever indices were still to run: the
  loop returns the text after the first marker, stripped; the effects added are the one
  model call and, with streaming on, the stream hook; no tool is called. With streaming
  on, the handlers are taken to return from the stream hook.
\<close>

theorem default_answer_terminates:
  assumes "inference_mode self = DEFAULT"
    and "llm_status (llm_run C i (generate_prompt C (join [CHR 0x0A] (previous_responses st)))) = SUCCESS"
    and "content (llm_output (llm_run C i (generate_prompt C (join [CHR 0x0A] (previous_responses st))))) = Some g"
    and "contains g ''Answer:''"
    and "streaming_enabled self \<longrightarrow> (\<forall>step. returns_normally (callbacks config) (on_node_execute_stream step))"
  shows "\<exists>pre rest st'.
           g = pre @ ''Answer:'' @ rest
         \<and> (\<forall>pre' rest'. g = pre' @ ''Answer:'' @ rest' \<longrightarrow> length pre \<le> length pre')
         \<and> loop self C config (i # later) st = (Inr (PStr (strip rest)), st')
         \<and> effects st' = effects st
             @ [ModelCalled i (generate_prompt C (join [CHR 0x0A] (previous_responses st)))]
             @ (if streaming_enabled self
                then replicate (length (callbacks config))
                       (Emitted (on_node_execute_stream
                          \<lparr>prompt = generate_prompt C (join [CHR 0x0A] (previous_responses st)),
                           model_observation = \<lparr>initial = Some g, tool_using = None, tool_input = None,
                                                tool_output = None, updated = None\<rparr>,
                           final_answer = Some (PStr (strip rest))\<rparr>))
                else [])"
proof -
  define p where "p = generate_prompt C (join [CHR 0x0A] (previous_responses st))"
  define st0 where "st0 = st\<lparr>effects := effects st @ [ModelCalled i p]\<rparr>"
  define step where "step = \<lparr>prompt = p,
      model_observation = \<lparr>initial = Some g, tool_using = None, tool_input = None,
                           tool_output = None, updated = None\<rparr>,
      final_answer = None :: pyval option\<rparr>"
  from contains_after_first[OF assms(4)] obtain rest where rest: "after_first g ''Answer:'' = Some rest"
    by blast
  from after_first_Some[OF rest] obtain pre where pre: "g = pre @ ''Answer:'' @ rest"
    "\<forall>pre' rest'. g = pre' @ ''Answer:'' @ rest' \<longrightarrow> length pre \<le> length pre'" by blast
  have ans: "extract_final_answer g = strip rest" by (simp add: extract_final_answer_def rest)
  have present: "map_of (intermediate_steps (tracing_intermediate i p g st0)) i = Some step"
    by (simp add: tracing_intermediate_def step_def update_conv')
  have "case_DEFAULT self C config i p (llm_output (llm_run C i p)) st0 =
      finish self config i (PStr (strip rest)) (tracing_intermediate i p g st0)"
    using assms(3,4) ans by (simp add: case_DEFAULT_def Let_def p_def)
  with finish_returns[OF assms(5) present, of "PStr (strip rest)"] assms(1,2)
  have "try_block self C config i p (llm_run C i p) st0 =
     (Return (PStr (strip rest)),
      (tracing_intermediate i p g st0)\<lparr>intermediate_steps :=
           AList.update i (step\<lparr>final_answer := Some (PStr (strip rest))\<rparr>)
             (intermediate_steps (tracing_intermediate i p g st0)),
         effects := effects (tracing_intermediate i p g st0) @
           (if streaming_enabled self
            then replicate (length (callbacks config))
                   (Emitted (on_node_execute_stream (step\<lparr>final_answer := Some (PStr (strip rest))\<rparr>)))
            else [])\<rparr>)"
    by (simp add: try_block_def p_def)
  then have "loop self C config (i # later) st =
     (Inr (PStr (strip rest)),
      (tracing_intermediate i p g st0)\<lparr>intermediate_steps :=
           AList.update i (step\<lparr>final_answer := Some (PStr (strip rest))\<rparr>)
             (intermediate_steps (tracing_intermediate i p g st0)),
         effects := effects (tracing_intermediate i p g st0) @
           (if streaming_enabled self
            then replicate (length (callbacks config))
                   (Emitted (on_node_execute_stream (step\<lparr>final_answer := Some (PStr (strip rest))\<rparr>)))
            else [])\<rparr>)"
    by (simp add: loop_body_unfold p_def st0_def)
  with pre show ?thesis
    by (auto simp: tracing_intermediate_rest st0_def step_def p_def)
qed

text \<open>
  Witness for C6: the answer \<open>42\<close> at loop index \<open>1\<close>, with the indices \<open>2\<close> and \<open>3\<close>
  never run.
\<close>

theorem default_answer_terminates_witness:
  "contains ''Thought: known. Answer: 42 '' ''Answer:''
   \<and> fst (loop flaky_agent flaky_collaborators quiet_config [1, 2, 3] fresh_state) = Inr (PStr ''42'')
   \<and> effects (snd (loop flaky_agent flaky_collaborators quiet_config [1, 2, 3] fresh_state))
       = [ModelCalled 1 ''User request: q. '']"
proof -
  have m: "inference_mode flaky_agent = DEFAULT" by (simp add: flaky_agent_def)
  have ok: "llm_status (llm_run flaky_collaborators 1
              (generate_prompt flaky_collaborators (join [CHR 0x0A] (previous_responses fresh_state)))) = SUCCESS"
    by (simp add: flaky_collaborators_def)
  have c: "content (llm_output (llm_run flaky_collaborators 1
              (generate_prompt flaky_collaborators (join [CHR 0x0A] (previous_responses fresh_state)))))
            = Some ''Thought: known. Answer: 42 ''"
    by (simp add: flaky_collaborators_def)
  have a: "contains ''Thought: known. Answer: 42 '' ''Answer:''"
    by (simp add: startswith_def)
  have q: "streaming_enabled flaky_agent \<longrightarrow>
      (\<forall>step. returns_normally (callbacks quiet_config) (on_node_execute_stream step))"
    by (simp add: flaky_agent_def)
  from default_answer_terminates[OF m ok c a q, of "[2, 3]"]
  obtain pre rest st' where
    g: "''Thought: known. Answer: 42 '' = pre @ ''Answer:'' @ rest"
    and l: "loop flaky_agent flaky_collaborators quiet_config [1, 2, 3] fresh_state = (Inr (PStr (strip rest)), st')"
    and e: "effects st' = effects fresh_state
             @ [ModelCalled 1 (generate_prompt flaky_collaborators (join [CHR 0x0A] (previous_responses fresh_state)))]
             @ (if streaming_enabled flaky_agent
                then replicate (length (callbacks quiet_config))
                       (Emitted (on_node_execute_stream
                          \<lparr>prompt = generate_prompt flaky_collaborators (join [CHR 0x0A] (previous_responses fresh_state)),
                           model_observation = \<lparr>initial = Some ''Thought: known. Answer: 42 '', tool_using = None,
                                                tool_input = None, tool_output = None, updated = None\<rparr>,
                           final_answer = Some (PStr (strip rest))\<rparr>))
                else [])"
    by blast
  have "fst (loop flaky_agent flaky_collaborators quiet_config [1, 2, 3] fresh_state) = Inr (PStr ''42'')"
    by (simp add: flaky_agent_def flaky_collaborators_def quiet_config_def fresh_state_def
        loop_body_unfold try_block_def case_DEFAULT_def finish_def tracing_final_def
        tracing_intermediate_def extract_final_answer_def startswith_def strip_def is_space_def
        Let_def)
  with l e a show ?thesis
    by (simp add: flaky_agent_def flaky_collaborators_def fresh_state_def)
qed



text \<open>
  C9. In \<open>FUNCTION_CALLING\<close> mode, a successful response whose first tool call names
  \<open>provide_final_answer\<close> (after stripping) with arguments that decode to an object with
  an \<open>answer\<close> ends the loop in that iteration with that answer (\<open>"42"\<close> in the claim);
  the effects added are the one model call and, with streaming on, the stream hook: no
  tool is dispatched. With streaming on, the handlers are taken to return from the
  stream hook.
\<close>

theorem function_calling_final_answer:
  assumes "inference_mode self = FUNCTION_CALLING"
    and "llm_status (llm_run C i (generate_prompt C (join [CHR 0x0A] (previous_responses st)))) = SUCCESS"
    and "tool_calls (llm_output (llm_run C i (generate_prompt C (join [CHR 0x0A] (previous_responses st)))))
           = Some (call # calls)"
    and "strip (name call) = ''provide_final_answer''"
    and "json_loads C (arguments call) = Some args"
    and "getitem args ''answer'' = Inr answer"
    and "streaming_enabled self \<longrightarrow> (\<forall>step. returns_normally (callbacks config) (on_node_execute_stream step))"
  shows "\<exists>st'. loop self C config (i # later) st = (Inr answer, st')
         \<and> effects st' = effects st
             @ [ModelCalled i (generate_prompt C (join [CHR 0x0A] (previous_responses st)))]
             @ (if streaming_enabled self
                then replicate (length (callbacks config))
                       (Emitted (on_node_execute_stream
                          \<lparr>prompt = generate_prompt C (join [CHR 0x0A] (previous_responses st)),
                           model_observation = \<lparr>initial = Some (json_dumps C args), tool_using = None,
                                                tool_input = None, tool_output = None, updated = None\<rparr>,
                           final_answer = Some answer\<rparr>))
                else [])"
proof -
  define p where "p = generate_prompt C (join [CHR 0x0A] (previous_responses st))"
  define st0 where "st0 = st\<lparr>effects := effects st @ [ModelCalled i p]\<rparr>"
  define g where "g = json_dumps C args"
  define step where "step = \<lparr>prompt = p,
      model_observation = \<lparr>initial = Some g, tool_using = None, tool_input = None,
                           tool_output = None, updated = None\<rparr>,
      final_answer = None :: pyval option\<rparr>"
  have present: "map_of (intermediate_steps (tracing_intermediate i p g st0)) i = Some step"
    by (simp add: tracing_intermediate_def step_def update_conv')
  have "case_FUNCTION_CALLING self C config i p (llm_output (llm_run C i p)) st0 =
      finish self config i answer (tracing_intermediate i p g st0)"
    using assms(3,4,5,6) by (simp add: case_FUNCTION_CALLING_def Let_def p_def g_def)
  with finish_returns[OF assms(7) present, of answer] assms(1,2)
  have "try_block self C config i p (llm_run C i p) st0 =
     (Return answer,
      (tracing_intermediate i p g st0)\<lparr>intermediate_steps :=
           AList.update i (step\<lparr>final_answer := Some answer\<rparr>)
             (intermediate_steps (tracing_intermediate i p g st0)),
         effects := effects (tracing_intermediate i p g st0) @
           (if streaming_enabled self
            then replicate (length (callbacks config))
                   (Emitted (on_node_execute_stream (step\<lparr>final_answer := Some answer\<rparr>)))
            else [])\<rparr>)"
    by (simp add: try_block_def p_def)
  then have "loop self C config (i # later) st =
     (Inr answer,
      (tracing_intermediate i p g st0)\<lparr>intermediate_steps :=
           AList.update i (step\<lparr>final_answer := Some answer\<rparr>)
             (intermediate_steps (tracing_intermediate i p g st0)),
         effects := effects (tracing_intermediate i p g st0) @
           (if streaming_enabled self
            then replicate (length (callbacks config))
                   (Emitted (on_node_execute_stream (step\<lparr>final_answer := Some answer\<rparr>)))
            else [])\<rparr>)"
    by (simp add: loop_body_unfold p_def st0_def)
  then show ?thesis
    by (auto simp: tracing_intermediate_rest st0_def step_def p_def g_def)
qed

text \<open>
  Witness for C9: \<open>provide_final_answer\<close> with the answer \<open>42\<close>, streaming on.
\<close>

theorem function_calling_final_answer_witness:
  "strip ''provide_final_answer'' = ''provide_final_answer''
   \<and> fst (loop calling_agent calling_collaborators quiet_config [0, 1, 2, 3, 4] fresh_state) = Inr (PStr ''42'')
   \<and> effects (snd (loop calling_agent calling_collaborators quiet_config [0, 1, 2, 3, 4] fresh_state))
       = [ModelCalled 0 ''User request: q. '',
          Emitted (on_node_execute_stream
             \<lparr>prompt = ''User request: q. '',
              model_observation = \<lparr>initial = Some ''{thought: t, answer: 42}'', tool_using = None,
                                   tool_input = None, tool_output = None, updated = None\<rparr>,
              final_answer = Some (PStr ''42'')\<rparr>)]"
proof -
  define call where "call = \<lparr>name = ''provide_final_answer'', arguments = ''{thought: t, answer: 42}''\<rparr>"
  define args where "args = PDict [(''thought'', PStr ''t''), (''answer'', PStr ''42'')]"
  have m: "inference_mode calling_agent = FUNCTION_CALLING" by (simp add: calling_agent_def)
  have ok: "llm_status (llm_run calling_collaborators 0
              (generate_prompt calling_collaborators (join [CHR 0x0A] (previous_responses fresh_state)))) = SUCCESS"
    by (simp add: calling_collaborators_def)
  have c: "tool_calls (llm_output (llm_run calling_collaborators 0
              (generate_prompt calling_collaborators (join [CHR 0x0A] (previous_responses fresh_state)))))
            = Some (call # [])"
    by (simp add: calling_collaborators_def call_def)
  have s0: "strip ''provide_final_answer'' = ''provide_final_answer''"
    by (simp add: strip_def is_space_def)
  then have s: "strip (name call) = ''provide_final_answer''" by (simp add: call_def)
  have j: "json_loads calling_collaborators (arguments call) = Some args"
    by (simp add: calling_collaborators_def call_def args_def)
  have a: "getitem args ''answer'' = Inr (PStr ''42'')" by (simp add: getitem_def args_def)
  have q: "streaming_enabled calling_agent \<longrightarrow>
      (\<forall>step. returns_normally (callbacks quiet_config) (on_node_execute_stream step))"
    by (simp add: quiet_config_def quiet_handler_def returns_normally_def)
  from function_calling_final_answer[OF m ok c s j a q, of "[1, 2, 3, 4]"]
  obtain st' where "loop calling_agent calling_collaborators quiet_config [0, 1, 2, 3, 4] fresh_state
      = (Inr (PStr ''42''), st')"
    "effects st' = effects fresh_state
             @ [ModelCalled 0 (generate_prompt calling_collaborators (join [CHR 0x0A] (previous_responses fresh_state)))]
             @ (if streaming_enabled calling_agent
                then replicate (length (callbacks quiet_config))
                       (Emitted (on_node_execute_stream
                          \<lparr>prompt = generate_prompt calling_collaborators (join [CHR 0x0A] (previous_responses fresh_state)),
                           model_observation = \<lparr>initial = Some (json_dumps calling_collaborators args), tool_using = None,
                                                tool_input = None, tool_output = None, updated = None\<rparr>,
                           final_answer = Some (PStr ''42'')\<rparr>))
                else [])"
    by blast
  with s0 show ?thesis
    by (simp add: calling_agent_def calling_collaborators_def quiet_config_def fresh_state_def)
qed

end
